theory Spec2Isabelle
  imports Complex_Main
begin

section \<open>JavaScript values used by the integration layer\<close>

text \<open>
  Optional object fields (\<^verbatim>\<open>field?: T\<close>) are options, \<open>None\<close> standing for
  \<^verbatim>\<open>undefined\<close>. Strings are lists of characters, one per UTF-16 code unit, so that
  \<open>length\<close> is JavaScript's \<^verbatim>\<open>.length\<close>. A thrown \<^verbatim>\<open>Error\<close> is the value
  \<open>Error msg\<close> on the left of a sum.
\<close>

datatype js_error = Error (message_of: string)

text \<open>Truthiness of an optional string: \<^verbatim>\<open>undefined\<close> and \<^verbatim>\<open>''\<close> are falsy.\<close>

fun truthy :: "string option \<Rightarrow> bool" where
  "truthy None = False"
| "truthy (Some s) = (s \<noteq> [])"

text \<open>Truthiness of an optional boolean flag.\<close>

fun flag :: "bool option \<Rightarrow> bool" where
  "flag None = False"
| "flag (Some b) = b"

text \<open>\<^verbatim>\<open>a || b\<close> on optional strings.\<close>

definition or_else :: "string option \<Rightarrow> string option \<Rightarrow> string option" where
  "or_else a b = (if truthy a then a else b)"

text \<open>\<^verbatim>\<open>a || s\<close> where \<open>s\<close> is a string that is always there.\<close>

definition or_str :: "string option \<Rightarrow> string \<Rightarrow> string" where
  "or_str a s = (case a of None \<Rightarrow> s | Some t \<Rightarrow> if t = [] then s else t)"

text \<open>A template literal \<^verbatim>\<open>${x}\<close> prints \<^verbatim>\<open>undefined\<close> for a missing string.\<close>

definition interpolate :: "string option \<Rightarrow> string" where
  "interpolate a = (case a of None \<Rightarrow> ''undefined'' | Some t \<Rightarrow> t)"

section \<open>Slack and standard entities (slack/types.ts in src/unnamed/part_007, common/types.ts in src/unnamed/part_006)\<close>

text \<open>
  Field names carry a prefix per interface (\<open>p_\<close> profile, \<open>su_\<close> SlackUser, \<open>sc_\<close>
  SlackChannel, \<open>u_\<close> StandardUser, \<open>c_\<close> StandardChannel), since the interfaces share the
  names \<^verbatim>\<open>id\<close>, \<^verbatim>\<open>name\<close> and \<^verbatim>\<open>email\<close>.
\<close>

record SlackProfile =
  p_real_name :: "string option"
  p_display_name :: "string option"
  p_email :: "string option"
  p_image_24 :: "string option"
  p_image_32 :: "string option"
  p_image_48 :: "string option"
  p_image_72 :: "string option"
  p_image_192 :: "string option"
  p_image_512 :: "string option"
  p_status_text :: "string option"
  p_status_emoji :: "string option"

record SlackUser =
  su_id :: string
  su_name :: string
  su_real_name :: "string option"
  su_display_name :: "string option"
  su_email :: "string option"
  su_image_24 :: "string option"
  su_image_32 :: "string option"
  su_image_48 :: "string option"
  su_image_72 :: "string option"
  su_image_192 :: "string option"
  su_image_512 :: "string option"
  su_is_bot :: "bool option"
  su_is_app_user :: "bool option"
  su_presence :: "string option"
  su_profile :: "SlackProfile option"

record SlackTopic =
  t_value :: string
  t_creator :: string
  t_last_set :: int

record SlackChannel =
  sc_id :: string
  sc_name :: string
  sc_is_channel :: "bool option"
  sc_is_group :: "bool option"
  sc_is_im :: "bool option"
  sc_is_mpim :: "bool option"
  sc_is_private :: "bool option"
  sc_is_archived :: "bool option"
  sc_is_general :: "bool option"
  sc_is_shared :: "bool option"
  sc_is_org_shared :: "bool option"
  sc_is_member :: "bool option"
  sc_purpose :: "SlackTopic option"
  sc_topic :: "SlackTopic option"
  sc_num_members :: "int option"

datatype user_status = Online | Offline | Away | Busy

record UserMetadata =
  isBot :: "bool option"
  isAppUser :: "bool option"
  statusText :: "string option"
  statusEmoji :: "string option"

record StandardUser =
  u_id :: string
  u_name :: string
  u_email :: "string option"
  u_avatar :: "string option"
  u_status :: "user_status option"
  u_metadata :: "UserMetadata option"

datatype channel_type = Public | Private | Direct | Group

record ChannelMetadata =
  isArchived :: "bool option"
  isGeneral :: "bool option"
  isShared :: "bool option"
  isMember :: "bool option"

record StandardChannel =
  c_id :: string
  c_name :: string
  c_description :: "string option"
  c_type :: channel_type
  c_memberCount :: "int option"
  c_metadata :: "ChannelMetadata option"

subsection \<open>SlackTransformer\<close>

text \<open>\<^verbatim>\<open>slackUser.profile?.f\<close>: the field of the profile, or \<^verbatim>\<open>undefined\<close> without one.\<close>

definition profile_field :: "(SlackProfile \<Rightarrow> string option) \<Rightarrow> SlackUser \<Rightarrow> string option" where
  "profile_field f slackUser = (case su_profile slackUser of None \<Rightarrow> None | Some p \<Rightarrow> f p)"

definition toStandardUser :: "SlackUser \<Rightarrow> StandardUser" where
  "toStandardUser slackUser =
     \<lparr> u_id = su_id slackUser,
       u_name = or_str (or_else (profile_field p_display_name slackUser) (su_real_name slackUser))
                  (su_name slackUser),
       u_email = or_else (profile_field p_email slackUser) (su_email slackUser),
       u_avatar = or_else (profile_field p_image_192 slackUser) (su_image_192 slackUser),
       u_status = Some (if su_presence slackUser = Some ''active'' then Online else Offline),
       u_metadata = Some \<lparr> isBot = su_is_bot slackUser,
                            isAppUser = su_is_app_user slackUser,
                            statusText = profile_field p_status_text slackUser,
                            statusEmoji = profile_field p_status_emoji slackUser \<rparr> \<rparr>"

text \<open>
  A StandardUser object handed to \<^verbatim>\<open>toStandardUser\<close> is read through the SlackUser
  interface: the properties the two interfaces share by name (\<^verbatim>\<open>id\<close>, \<^verbatim>\<open>name\<close>,
  \<^verbatim>\<open>email\<close>) are found, every other SlackUser property (\<^verbatim>\<open>real_name\<close>,
  \<^verbatim>\<open>presence\<close>, \<^verbatim>\<open>profile\<close>, ...) is \<^verbatim>\<open>undefined\<close> on that object, and its
  \<^verbatim>\<open>avatar\<close>, \<^verbatim>\<open>status\<close> and \<^verbatim>\<open>metadata\<close> are never read.
\<close>

definition asSlackUser :: "StandardUser \<Rightarrow> SlackUser" where
  "asSlackUser u =
     \<lparr> su_id = u_id u, su_name = u_name u, su_real_name = None, su_display_name = None,
       su_email = u_email u, su_image_24 = None, su_image_32 = None, su_image_48 = None,
       su_image_72 = None, su_image_192 = None, su_image_512 = None, su_is_bot = None,
       su_is_app_user = None, su_presence = None, su_profile = None \<rparr>"

definition topic_value :: "SlackTopic option \<Rightarrow> string option" where
  "topic_value t = map_option t_value t"

definition channelType :: "SlackChannel \<Rightarrow> channel_type" where
  "channelType slackChannel =
     (if flag (sc_is_im slackChannel) then Direct
      else if flag (sc_is_mpim slackChannel) \<or> flag (sc_is_group slackChannel) then Group
      else if flag (sc_is_private slackChannel) then Private
      else Public)"

definition toStandardChannel :: "SlackChannel \<Rightarrow> StandardChannel" where
  "toStandardChannel slackChannel =
     \<lparr> c_id = sc_id slackChannel,
       c_name = sc_name slackChannel,
       c_description = or_else (topic_value (sc_purpose slackChannel))
                         (topic_value (sc_topic slackChannel)),
       c_type = channelType slackChannel,
       c_memberCount = sc_num_members slackChannel,
       c_metadata = Some \<lparr> isArchived = sc_is_archived slackChannel,
                            isGeneral = sc_is_general slackChannel,
                            isShared = sc_is_shared slackChannel,
                            isMember = sc_is_member slackChannel \<rparr> \<rparr>"

section \<open>IntegrationRegistry (src/integrations/common/index.ts)\<close>

text \<open>
  The registry's \<^verbatim>\<open>Map\<close> is an association list in insertion order, which is the order
  \<^verbatim>\<open>getAll\<close> iterates in. An integration is seen by the registry through its
  identifier and its \<^verbatim>\<open>enabled\<close> flag; \<open>'a\<close> is the rest of the adapter object.
\<close>

record 'a BaseIntegration =
  i_id :: string
  i_enabled :: bool
  i_impl :: 'a

type_synonym 'a registry = "(string \<times> 'a BaseIntegration) list"

definition has :: "'a registry \<Rightarrow> string \<Rightarrow> bool" where
  "has r ident = (map_of r ident \<noteq> None)"

text \<open>
  \<^verbatim>\<open>register\<close> returns the outcome (the thrown error, or nothing) and the registry
  after the call.
\<close>

definition register :: "'a registry \<Rightarrow> 'a BaseIntegration \<Rightarrow> (js_error + unit) \<times> 'a registry" where
  "register r integration =
     (if has r (i_id integration)
      then (Inl (Error (''Integration '' @ i_id integration @ '' is already registered'')), r)
      else (Inr (), r @ [(i_id integration, integration)]))"

definition get :: "'a registry \<Rightarrow> string \<Rightarrow> 'a BaseIntegration option" where
  "get r ident = map_of r ident"

definition getAll :: "'a registry \<Rightarrow> 'a BaseIntegration list" where
  "getAll r = map snd r"

definition getEnabled :: "'a registry \<Rightarrow> 'a BaseIntegration list" where
  "getEnabled r = filter i_enabled (getAll r)"

text \<open>\<^verbatim>\<open>unregister\<close> returns what \<^verbatim>\<open>Map.delete\<close> returns, and the registry after it.\<close>

definition unregister :: "'a registry \<Rightarrow> string \<Rightarrow> bool \<times> 'a registry" where
  "unregister r ident = (has r ident, filter (\<lambda>entry. fst entry \<noteq> ident) r)"

section \<open>Standard envelope and errors (common/base-integration.ts in src/unnamed/part_005, common/types.ts in src/unnamed/part_006)\<close>

text \<open>The error codes of \<^verbatim>\<open>IntegrationErrorCodes\<close>, grouped as the source groups them.\<close>

definition AUTHENTICATION_FAILED :: string where "AUTHENTICATION_FAILED = ''AUTHENTICATION_FAILED''"
definition TOKEN_EXPIRED :: string where "TOKEN_EXPIRED = ''TOKEN_EXPIRED''"
definition INVALID_CREDENTIALS :: string where "INVALID_CREDENTIALS = ''INVALID_CREDENTIALS''"
definition INSUFFICIENT_PERMISSIONS :: string where "INSUFFICIENT_PERMISSIONS = ''INSUFFICIENT_PERMISSIONS''"
definition API_ERROR :: string where "API_ERROR = ''API_ERROR''"
definition RATE_LIMITED :: string where "RATE_LIMITED = ''RATE_LIMITED''"
definition SERVICE_UNAVAILABLE :: string where "SERVICE_UNAVAILABLE = ''SERVICE_UNAVAILABLE''"
definition RESOURCE_NOT_FOUND :: string where "RESOURCE_NOT_FOUND = ''RESOURCE_NOT_FOUND''"
definition RESOURCE_CONFLICT :: string where "RESOURCE_CONFLICT = ''RESOURCE_CONFLICT''"
definition CONFIGURATION_ERROR :: string where "CONFIGURATION_ERROR = ''CONFIGURATION_ERROR''"
definition INTEGRATION_DISABLED :: string where "INTEGRATION_DISABLED = ''INTEGRATION_DISABLED''"


text \<open>
  What the base class reads from its surroundings: the wall clock
  (\<^verbatim>\<open>new Date().toISOString()\<close>), whether \<^verbatim>\<open>NODE_ENV\<close> is \<^verbatim>\<open>development\<close>, and the
  text of \<^verbatim>\<open>new Error().stack\<close>.
\<close>

record runtime =
  now :: string
  development :: bool
  stackTrace :: string

text \<open>A \<^verbatim>\<open>details\<close> bag: property names with their values, in the order written.\<close>

type_synonym details = "(string \<times> string option) list"

record IntegrationError =
  e_code :: string
  e_message :: string
  e_details :: "details option"
  e_stack :: "string option"

record Meta =
  timestamp :: string
  integration :: string
  version :: string

record 'a IntegrationResponse =
  r_success :: bool
  r_data :: "'a option"
  r_error :: "IntegrationError option"
  r_meta :: "Meta option"

text \<open>
  \<^verbatim>\<open>createResponse\<close> of an adapter with identifier \<open>ident\<close> and version \<open>ver\<close>. An error
  object is truthy, so \<^verbatim>\<open>!error\<close> holds exactly when no error was passed.
\<close>

definition createResponse ::
  "runtime \<Rightarrow> string \<Rightarrow> string \<Rightarrow> 'a option \<Rightarrow> IntegrationError option \<Rightarrow> 'a IntegrationResponse" where
  "createResponse rt ident ver d e =
     \<lparr> r_success = (e = None),
       r_data = (if e \<noteq> None then None else d),
       r_error = e,
       r_meta = Some \<lparr> timestamp = now rt, integration = ident, version = ver \<rparr> \<rparr>"

definition createError :: "runtime \<Rightarrow> string \<Rightarrow> string \<Rightarrow> details option \<Rightarrow> IntegrationError" where
  "createError rt c m d =
     \<lparr> e_code = c, e_message = m, e_details = d,
       e_stack = (if development rt then Some (stackTrace rt) else None) \<rparr>"

section \<open>Input validation (IntegrationUtils.validateInput in src/unnamed/part_006, the schemas in src/unnamed/part_007)\<close>

text \<open>\<^verbatim>\<open>Array.prototype.join\<close>.\<close>

fun join :: "string \<Rightarrow> string list \<Rightarrow> string" where
  "join sep [] = []"
| "join sep [x] = x"
| "join sep (x # y # ys) = x @ sep @ join sep (y # ys)"

text \<open>
  A schema's \<^verbatim>\<open>parse\<close> either returns the parsed value or throws a \<^verbatim>\<open>ZodError\<close>, seen
  here as the list of its issues' messages.
\<close>

type_synonym ('i, 'o) schema = "'i \<Rightarrow> string list + 'o"

definition validateInput :: "('i, 'o) schema \<Rightarrow> 'i \<Rightarrow> js_error + 'o" where
  "validateInput schema d =
     (case schema d of
        Inr v \<Rightarrow> Inr v
      | Inl issues \<Rightarrow> Inl (Error (''Validation failed: '' @ join '', '' issues)))"

text \<open>What a schema returns once every field has been checked.\<close>

definition parsed :: "string list \<Rightarrow> 'o \<Rightarrow> string list + 'o" where
  "parsed issues v = (if issues = [] then Inr v else Inl issues)"

text \<open>\<^verbatim>\<open>z.string().min(1, msg)\<close>.\<close>

definition string_min1 :: "string \<Rightarrow> string \<Rightarrow> string list" where
  "string_min1 msg s = (if length s < 1 then [msg] else [])"

text \<open>
  \<^verbatim>\<open>z.number().min(1).max(1000)\<close> on a finite number, with the validation library's
  messages for the two checks.
\<close>

definition number_1_1000 :: "real \<Rightarrow> string list" where
  "number_1_1000 n =
     (if n < 1 then [''Number must be greater than or equal to 1''] else []) @
     (if n > 1000 then [''Number must be less than or equal to 1000''] else [])"

record SlackConfig =
  nangoConnectionId :: string
  botToken :: "string option"
  appToken :: "string option"
  signingSecret :: "string option"
  defaultChannel :: "string option"

definition SlackConfigSchema :: "(SlackConfig, SlackConfig) schema" where
  "SlackConfigSchema cfg =
     parsed (string_min1 ''Nango connection ID is required'' (nangoConnectionId cfg)) cfg"

record SendMessageRequest =
  m_channel :: string
  m_text :: string
  m_thread_ts :: "string option"
  m_reply_broadcast :: "bool option"
  m_username :: "string option"
  m_icon_emoji :: "string option"
  m_icon_url :: "string option"
  m_attachments :: "string list option"
  m_blocks :: "string list option"

definition SendMessageSchema :: "(SendMessageRequest, SendMessageRequest) schema" where
  "SendMessageSchema req =
     parsed (string_min1 ''Channel is required'' (m_channel req) @
             string_min1 ''Message text is required'' (m_text req)) req"

text \<open>
  \<^verbatim>\<open>messageContentSchema\<close> of common/types.ts. No request schema refers to it.
\<close>

definition messageContentSchema :: "(string, string) schema" where
  "messageContentSchema s =
     parsed ((if length s < 1 then [''Message content is required''] else []) @
             (if length s > 4000 then [''Message too long''] else [])) s"

record GetUsersRequest =
  gu_cursor :: "string option"
  gu_limit :: "real option"
  gu_include_locale :: "bool option"

record GetUsersValidated =
  vu_cursor :: "string option"
  vu_limit :: real
  vu_include_locale :: "bool option"

definition GetUsersSchema :: "(GetUsersRequest, GetUsersValidated) schema" where
  "GetUsersSchema req =
     parsed (case gu_limit req of None \<Rightarrow> [] | Some n \<Rightarrow> number_1_1000 n)
       \<lparr> vu_cursor = gu_cursor req,
         vu_limit = (case gu_limit req of None \<Rightarrow> 100 | Some n \<Rightarrow> n),
         vu_include_locale = gu_include_locale req \<rparr>"

record GetChannelsRequest =
  gc_cursor :: "string option"
  gc_limit :: "real option"
  gc_exclude_archived :: "bool option"
  gc_types :: "string option"

record GetChannelsValidated =
  vc_cursor :: "string option"
  vc_limit :: real
  vc_exclude_archived :: bool
  vc_types :: string

definition GetChannelsSchema :: "(GetChannelsRequest, GetChannelsValidated) schema" where
  "GetChannelsSchema req =
     parsed (case gc_limit req of None \<Rightarrow> [] | Some n \<Rightarrow> number_1_1000 n)
       \<lparr> vc_cursor = gc_cursor req,
         vc_limit = (case gc_limit req of None \<Rightarrow> 100 | Some n \<Rightarrow> n),
         vc_exclude_archived = (case gc_exclude_archived req of None \<Rightarrow> True | Some b \<Rightarrow> b),
         vc_types = (case gc_types req of None \<Rightarrow> ''public_channel,private_channel''
                     | Some t \<Rightarrow> t) \<rparr>"

record GetUserInfoRequest =
  gi_user :: string
  gi_include_locale :: "bool option"

definition GetUserInfoSchema :: "(GetUserInfoRequest, GetUserInfoRequest) schema" where
  "GetUserInfoSchema req = parsed (string_min1 ''User ID is required'' (gi_user req)) req"

section \<open>The connector behind the adapter\<close>

text \<open>
  The Nango client is outside the repository. What it answers is a parameter of the model:
  \<open>proxy\<close> for \<^verbatim>\<open>nango.proxy\<close> and \<open>triggerAction\<close> for \<^verbatim>\<open>nango.triggerAction\<close>.
  Every operation returns, beside its result, the list of connector calls it issued.
\<close>

datatype payload =
    NoData
  | Limit real
  | UserInfoData GetUserInfoRequest
  | UsersData GetUsersValidated
  | ChannelsData GetChannelsValidated

record proxy_request =
  pr_endpoint :: string
  pr_method :: string
  pr_data :: payload
  pr_connectionId :: string
  pr_providerConfigKey :: string

record action_request =
  ac_provider :: string
  ac_connectionId :: string
  ac_action :: string
  ac_channel :: string
  ac_text :: string

datatype external_call = Proxy proxy_request | TriggerAction action_request

record ResponseMetadata =
  next_cursor :: "string option"

text \<open>The properties the adapter reads on \<^verbatim>\<open>response.data\<close> of a proxied call.\<close>

record ApiData =
  a_ok :: bool
  a_error :: "string option"
  a_user :: "SlackUser option"
  a_members :: "SlackUser list option"
  a_channels :: "SlackChannel list option"
  a_response_metadata :: "ResponseMetadata option"

text \<open>
  A proxied call either rejects, with \<^verbatim>\<open>error.response?.status\<close> and
  \<^verbatim>\<open>error.message\<close>, or resolves with a body, which may be missing.
\<close>

datatype proxy_outcome =
    ProxyThrows "nat option" "string option"
  | ProxyReturns "ApiData option"

text \<open>The properties the adapter reads on the answer of the \<^verbatim>\<open>send-message\<close> action.\<close>

record ActionResponse =
  ar_ok :: bool
  ar_error :: "string option"
  ar_ts :: "string option"
  ar_raw_json :: "string option"

datatype action_outcome =
    ActionThrows string
  | ActionReturns "ActionResponse option"

record world =
  proxy :: "proxy_request \<Rightarrow> proxy_outcome"
  triggerAction :: "action_request \<Rightarrow> action_outcome"

text \<open>
  Reading a property of \<^verbatim>\<open>undefined\<close> throws a \<^verbatim>\<open>TypeError\<close>, whose message
  names the property between single quotes (the character with code 39).
\<close>

definition typeError :: "string \<Rightarrow> js_error" where
  "typeError prop =
     Error (''Cannot read properties of undefined (reading '' @ [CHR 0x27] @ prop @
            [CHR 0x27] @ '')'')"

section \<open>SlackService (slack/service.ts, the second part of src/integrations/slack/index.ts)\<close>

definition slackId :: string where "slackId = ''slack''"
definition slackVersion :: string where "slackVersion = ''1.0.0''"

definition slackResponse ::
  "runtime \<Rightarrow> 'a option \<Rightarrow> IntegrationError option \<Rightarrow> 'a IntegrationResponse" where
  "slackResponse rt d e = createResponse rt slackId slackVersion d e"

definition makeApiCall ::
  "world \<Rightarrow> SlackConfig option \<Rightarrow> string \<Rightarrow> payload \<Rightarrow>
     (js_error + ApiData option) \<times> external_call list" where
  "makeApiCall w config endpoint d =
     (case config of
        None \<Rightarrow> (Inl (Error ''Integration not initialized''), [])
      | Some c \<Rightarrow>
          let req = \<lparr> pr_endpoint = endpoint, pr_method = ''POST'', pr_data = d,
                      pr_connectionId = nangoConnectionId c, pr_providerConfigKey = ''slack'' \<rparr>
          in (case proxy w req of
                ProxyReturns body \<Rightarrow> (Inr body, [Proxy req])
              | ProxyThrows st m \<Rightarrow>
                  (Inl (Error
                     (if st = Some 401 then ''Authentication failed - token may be expired''
                      else if st = Some 403 then ''Insufficient permissions''
                      else if st = Some 429 then ''Rate limit exceeded''
                      else ''API call failed: '' @ interpolate m)),
                   [Proxy req])))"

subsection \<open>testConnection and initialize\<close>

datatype health_status = Healthy | Degraded | Unhealthy

record Checks =
  authentication :: bool
  apiAccess :: bool
  permissions :: bool

record IntegrationHealthCheck =
  h_status :: health_status
  h_timestamp :: string
  h_checks :: Checks
  h_details :: "(string \<times> string) list"

definition noChecks :: Checks where
  "noChecks = \<lparr> authentication = False, apiAccess = False, permissions = False \<rparr>"

text \<open>
  The inner \<^verbatim>\<open>try\<close> around the permission probe: whatever the call to
  \<^verbatim>\<open>/conversations.list\<close> throws is caught, and \<open>permissions\<close> stays false.
\<close>

definition probePermissions :: "world \<Rightarrow> SlackConfig option \<Rightarrow> Checks \<Rightarrow> Checks \<times> external_call list" where
  "probePermissions w config checks =
     (case makeApiCall w config ''/conversations.list'' (Limit 1) of
        (Inr body, calls) \<Rightarrow> (checks\<lparr> permissions := True \<rparr>, calls)
      | (Inl permError, calls) \<Rightarrow> (checks, calls))"

text \<open>\<^verbatim>\<open>Object.values(checks).every(check => check)\<close>.\<close>

definition allHealthy :: "Checks \<Rightarrow> bool" where
  "allHealthy checks =
     list_all (\<lambda>check. check) [authentication checks, apiAccess checks, permissions checks]"

text \<open>
  The body of the outer \<^verbatim>\<open>try\<close>. Beside its outcome it returns \<open>checks\<close> as they are
  when it ends, since the \<^verbatim>\<open>catch\<close> block reports that object.
\<close>

definition testConnectionTry ::
  "runtime \<Rightarrow> world \<Rightarrow> SlackConfig option \<Rightarrow>
     (js_error + IntegrationHealthCheck) \<times> Checks \<times> external_call list" where
  "testConnectionTry rt w config =
     (case config of
        None \<Rightarrow> (Inl (Error ''Integration not initialized''), noChecks, [])
      | Some c \<Rightarrow>
          (case makeApiCall w config ''/auth.test'' NoData of
             (Inl e, calls) \<Rightarrow> (Inl e, noChecks, calls)
           | (Inr None, calls) \<Rightarrow> (Inl (typeError ''ok''), noChecks, calls)
           | (Inr (Some response), calls) \<Rightarrow>
               let (checks, calls') =
                     (if a_ok response
                      then (case probePermissions w config
                                   (noChecks\<lparr> authentication := True, apiAccess := True \<rparr>) of
                              (checks, calls2) \<Rightarrow> (checks, calls @ calls2))
                      else (noChecks, calls))
               in (Inr \<lparr> h_status = (if allHealthy checks then Healthy
                                      else if authentication checks then Degraded
                                      else Unhealthy),
                          h_timestamp = now rt,
                          h_checks = checks,
                          h_details = [(''connectionId'', nangoConnectionId c)] \<rparr>,
                   checks, calls')))"

definition testConnection ::
  "runtime \<Rightarrow> world \<Rightarrow> SlackConfig option \<Rightarrow>
     (js_error + IntegrationHealthCheck) \<times> external_call list" where
  "testConnection rt w config =
     (case testConnectionTry rt w config of
        (Inr health, checks, calls) \<Rightarrow> (Inr health, calls)
      | (Inl e, checks, calls) \<Rightarrow>
          (Inr \<lparr> h_status = Unhealthy,
                 h_timestamp = now rt,
                 h_checks = checks,
                 h_details = [(''error'', message_of e)] \<rparr>,
           calls))"

text \<open>
  \<^verbatim>\<open>initialize\<close> returns its outcome, the adapter's \<^verbatim>\<open>config\<close> field after the call
  (\<open>config0\<close> before it) and the connector calls issued. The value \<^verbatim>\<open>testConnection\<close>
  resolves with is not used.
\<close>

definition initialize ::
  "runtime \<Rightarrow> world \<Rightarrow> SlackConfig option \<Rightarrow> SlackConfig \<Rightarrow>
     (js_error + unit) \<times> SlackConfig option \<times> external_call list" where
  "initialize rt w config0 config =
     (case validateInput SlackConfigSchema config of
        Inl e \<Rightarrow>
          (Inl (Error (''Failed to initialize Slack integration: '' @ message_of e)), config0, [])
      | Inr validated \<Rightarrow>
          (case testConnection rt w (Some validated) of
             (Inr health, calls) \<Rightarrow> (Inr (), Some validated, calls)
           | (Inl e, calls) \<Rightarrow>
               (Inl (Error (''Failed to initialize Slack integration: '' @ message_of e)),
                Some validated, calls)))"

subsection \<open>sendMessage\<close>

record SendResult =
  messageId :: string
  timestamp_of :: string

text \<open>The \<^verbatim>\<open>switch\<close> over \<^verbatim>\<open>response.error\<close>.\<close>

definition suggestionFor :: "string option \<Rightarrow> string" where
  "suggestionFor slackError =
     (if slackError = Some ''not_in_channel''
        then ''You are not a member of this channel. Please join the channel first.''
      else if slackError = Some ''channel_not_found''
        then ''The specified channel does not exist or you do not have access to it.''
      else if slackError = Some ''access_denied''
        then ''You do not have permission to post messages to this channel. Check your channel permissions.''
      else if slackError = Some ''account_inactive''
        then ''Your Slack account or workspace is inactive.''
      else if slackError = Some ''token_expired''
        then ''Your authentication token has expired. Please reconnect the integration.''
      else if slackError = Some ''restricted_action''
        then ''Message posting is restricted in this channel. Contact your workspace admin.''
      else ''Please check the channel ID and ensure you have access to post messages.'')"

text \<open>The branch taken when the action's answer has a falsy \<^verbatim>\<open>ok\<close>.\<close>

definition sendRejected :: "runtime \<Rightarrow> ActionResponse \<Rightarrow> SendResult IntegrationResponse" where
  "sendRejected rt response =
     (let errorMessage = ''Failed to send message: '' @ or_str (ar_error response) ''Unknown error'';
          suggestions = suggestionFor (ar_error response);
          errorMessage' = (if suggestions \<noteq> [] then errorMessage @ '' '' @ suggestions
                           else errorMessage)
      in slackResponse rt None
           (Some (createError rt API_ERROR errorMessage'
              (Some [(''slackError'', ar_error response),
                     (''suggestions'', Some suggestions),
                     (''errorType'', ar_error response),
                     (''rawResponse'', ar_raw_json response)]))))"

definition sendMessageTry ::
  "runtime \<Rightarrow> world \<Rightarrow> SlackConfig option \<Rightarrow> SendMessageRequest \<Rightarrow>
     (js_error + SendResult IntegrationResponse) \<times> external_call list" where
  "sendMessageTry rt w config request =
     (case validateInput SendMessageSchema request of
        Inl e \<Rightarrow> (Inl e, [])
      | Inr validatedRequest \<Rightarrow>
          (case config of
             None \<Rightarrow> (Inl (Error ''Integration not initialized''), [])
           | Some c \<Rightarrow>
               let req = \<lparr> ac_provider = ''slack'', ac_connectionId = nangoConnectionId c,
                           ac_action = ''send-message'',
                           ac_channel = m_channel validatedRequest,
                           ac_text = m_text validatedRequest \<rparr>
               in (case triggerAction w req of
                     ActionThrows m \<Rightarrow> (Inl (Error m), [TriggerAction req])
                   | ActionReturns None \<Rightarrow> (Inl (typeError ''ok''), [TriggerAction req])
                   | ActionReturns (Some response) \<Rightarrow>
                       (if \<not> ar_ok response
                        then (Inr (sendRejected rt response), [TriggerAction req])
                        else (Inr (slackResponse rt
                                     (Some \<lparr> messageId = or_str (ar_ts response) [],
                                              timestamp_of = or_str (ar_ts response) [] \<rparr>)
                                     None),
                              [TriggerAction req])))))"

text \<open>The \<^verbatim>\<open>catch\<close> block every operation ends with.\<close>

definition caught :: "runtime \<Rightarrow> string \<Rightarrow> js_error \<Rightarrow> 'a IntegrationResponse" where
  "caught rt prefix e =
     slackResponse rt None (Some (createError rt API_ERROR (prefix @ message_of e) None))"

definition sendMessage ::
  "runtime \<Rightarrow> world \<Rightarrow> SlackConfig option \<Rightarrow> SendMessageRequest \<Rightarrow>
     SendResult IntegrationResponse \<times> external_call list" where
  "sendMessage rt w config request =
     (case sendMessageTry rt w config request of
        (Inr response, calls) \<Rightarrow> (response, calls)
      | (Inl e, calls) \<Rightarrow> (caught rt ''Failed to send message: '' e, calls))"

subsection \<open>getUserInfo, getUsers, getChannels\<close>

text \<open>
  \<^verbatim>\<open>!response.ok || !response.x\<close> fails to hold exactly when \<^verbatim>\<open>ok\<close> is truthy and
  the property \<^verbatim>\<open>x\<close> is there; \<open>present\<close> then gives the property.
\<close>

definition present :: "ApiData \<Rightarrow> (ApiData \<Rightarrow> 'a option) \<Rightarrow> 'a option" where
  "present response x = (if \<not> a_ok response \<or> x response = None then None else x response)"

definition getUserInfoTry ::
  "runtime \<Rightarrow> world \<Rightarrow> SlackConfig option \<Rightarrow> GetUserInfoRequest \<Rightarrow>
     (js_error + StandardUser IntegrationResponse) \<times> external_call list" where
  "getUserInfoTry rt w config request =
     (case validateInput GetUserInfoSchema request of
        Inl e \<Rightarrow> (Inl e, [])
      | Inr validatedRequest \<Rightarrow>
          (case makeApiCall w config ''/users.info'' (UserInfoData validatedRequest) of
             (Inl e, calls) \<Rightarrow> (Inl e, calls)
           | (Inr None, calls) \<Rightarrow> (Inl (typeError ''ok''), calls)
           | (Inr (Some response), calls) \<Rightarrow>
               (case present response a_user of
                  None \<Rightarrow>
                    (Inr (slackResponse rt None
                            (Some (createError rt RESOURCE_NOT_FOUND
                               (''User not found: '' @ interpolate (a_error response))
                               (Some [(''slackError'', a_error response)])))),
                     calls)
                | Some user \<Rightarrow>
                    (Inr (slackResponse rt (Some (toStandardUser user)) None), calls))))"

definition getUserInfo ::
  "runtime \<Rightarrow> world \<Rightarrow> SlackConfig option \<Rightarrow> GetUserInfoRequest \<Rightarrow>
     StandardUser IntegrationResponse \<times> external_call list" where
  "getUserInfo rt w config request =
     (case getUserInfoTry rt w config request of
        (Inr response, calls) \<Rightarrow> (response, calls)
      | (Inl e, calls) \<Rightarrow> (caught rt ''Failed to get user info: '' e, calls))"

record UsersResult =
  users :: "StandardUser list"
  users_nextCursor :: "string option"

text \<open>\<^verbatim>\<open>response.response_metadata?.next_cursor\<close>.\<close>

definition nextCursorOf :: "ApiData \<Rightarrow> string option" where
  "nextCursorOf response =
     (case a_response_metadata response of None \<Rightarrow> None | Some md \<Rightarrow> next_cursor md)"

definition getUsersTry ::
  "runtime \<Rightarrow> world \<Rightarrow> SlackConfig option \<Rightarrow> GetUsersRequest \<Rightarrow>
     (js_error + UsersResult IntegrationResponse) \<times> external_call list" where
  "getUsersTry rt w config request =
     (case validateInput GetUsersSchema request of
        Inl e \<Rightarrow> (Inl e, [])
      | Inr validatedRequest \<Rightarrow>
          (case makeApiCall w config ''/users.list'' (UsersData validatedRequest) of
             (Inl e, calls) \<Rightarrow> (Inl e, calls)
           | (Inr None, calls) \<Rightarrow> (Inl (typeError ''ok''), calls)
           | (Inr (Some response), calls) \<Rightarrow>
               (case present response a_members of
                  None \<Rightarrow>
                    (Inr (slackResponse rt None
                            (Some (createError rt API_ERROR
                               (''Failed to fetch users: '' @ interpolate (a_error response))
                               (Some [(''slackError'', a_error response)])))),
                     calls)
                | Some members \<Rightarrow>
                    (Inr (slackResponse rt
                            (Some \<lparr> users = map toStandardUser members,
                                     users_nextCursor = nextCursorOf response \<rparr>)
                            None),
                     calls))))"

definition getUsers ::
  "runtime \<Rightarrow> world \<Rightarrow> SlackConfig option \<Rightarrow> GetUsersRequest \<Rightarrow>
     UsersResult IntegrationResponse \<times> external_call list" where
  "getUsers rt w config request =
     (case getUsersTry rt w config request of
        (Inr response, calls) \<Rightarrow> (response, calls)
      | (Inl e, calls) \<Rightarrow> (caught rt ''Failed to fetch users: '' e, calls))"

record ChannelsResult =
  channels :: "StandardChannel list"
  channels_nextCursor :: "string option"

definition getChannelsTry ::
  "runtime \<Rightarrow> world \<Rightarrow> SlackConfig option \<Rightarrow> GetChannelsRequest \<Rightarrow>
     (js_error + ChannelsResult IntegrationResponse) \<times> external_call list" where
  "getChannelsTry rt w config request =
     (case validateInput GetChannelsSchema request of
        Inl e \<Rightarrow> (Inl e, [])
      | Inr validatedRequest \<Rightarrow>
          (case makeApiCall w config ''/conversations.list'' (ChannelsData validatedRequest) of
             (Inl e, calls) \<Rightarrow> (Inl e, calls)
           | (Inr None, calls) \<Rightarrow> (Inl (typeError ''ok''), calls)
           | (Inr (Some response), calls) \<Rightarrow>
               (case present response a_channels of
                  None \<Rightarrow>
                    (Inr (slackResponse rt None
                            (Some (createError rt API_ERROR
                               (''Failed to fetch channels: '' @ interpolate (a_error response))
                               (Some [(''slackError'', a_error response)])))),
                     calls)
                | Some chans \<Rightarrow>
                    (Inr (slackResponse rt
                            (Some \<lparr> channels = map toStandardChannel chans,
                                     channels_nextCursor = nextCursorOf response \<rparr>)
                            None),
                     calls))))"

definition getChannels ::
  "runtime \<Rightarrow> world \<Rightarrow> SlackConfig option \<Rightarrow> GetChannelsRequest \<Rightarrow>
     ChannelsResult IntegrationResponse \<times> external_call list" where
  "getChannels rt w config request =
     (case getChannelsTry rt w config request of
        (Inr response, calls) \<Rightarrow> (response, calls)
      | (Inl e, calls) \<Rightarrow> (caught rt ''Failed to fetch channels: '' e, calls))"

section \<open>IntegrationUtils.retry (common/types.ts in src/unnamed/part_006)\<close>

text \<open>
  The operation handed to \<^verbatim>\<open>retry\<close> may answer differently each time it is invoked:
  it is a function on a state \<open>'s\<close> of its own, returning the rejection or the value it
  resolves with, and the state after the invocation. Numbers are the reals. The helper's
  observable behaviour is the list of its events: each invocation, and each
  \<^verbatim>\<open>delay(ms)\<close> it awaits.
\<close>

record RetryOptions =
  maxAttempts :: "int option"
  baseDelay :: "real option"
  maxDelay :: "real option"
  backoffFactor :: "real option"

datatype event = Invoked | Slept real

definition retryDelay :: "real \<Rightarrow> real \<Rightarrow> real \<Rightarrow> int \<Rightarrow> real" where
  "retryDelay base factor cap attempt = min (base * factor ^ nat (attempt - 1)) cap"

text \<open>
  The \<^verbatim>\<open>for\<close> loop from \<open>attempt\<close> on. \<open>lastError\<close> is \<open>None\<close> while unassigned. The
  result is what \<^verbatim>\<open>retry\<close> resolves with (right) or throws (left: the value of
  \<^verbatim>\<open>lastError\<close>), the operation's state, and the events so far.
\<close>

function retryLoop ::
  "('s \<Rightarrow> ('e + 'a) \<times> 's) \<Rightarrow> int \<Rightarrow> real \<Rightarrow> real \<Rightarrow> real \<Rightarrow>
     int \<Rightarrow> 'e option \<Rightarrow> 's \<Rightarrow> event list \<Rightarrow> ('e option + 'a) \<times> 's \<times> event list" where
  "retryLoop fn maxA base cap factor attempt lastError s evs =
     (if attempt \<le> maxA then
        (case fn s of
           (Inr v, s') \<Rightarrow> (Inr v, s', evs @ [Invoked])
         | (Inl err, s') \<Rightarrow>
             (if attempt = maxA then (Inl (Some err), s', evs @ [Invoked])
              else retryLoop fn maxA base cap factor (attempt + 1) (Some err) s'
                     (evs @ [Invoked, Slept (retryDelay base factor cap attempt)])))
      else (Inl lastError, s, evs))"
  by pat_completeness auto
termination
  by (relation "measure (\<lambda>(fn, maxA, base, cap, factor, attempt, lastError, s, evs).
                           nat (maxA + 1 - attempt))") auto

definition retry ::
  "('s \<Rightarrow> ('e + 'a) \<times> 's) \<Rightarrow> RetryOptions \<Rightarrow> 's \<Rightarrow> ('e option + 'a) \<times> 's \<times> event list" where
  "retry fn options s =
     retryLoop fn
       (case maxAttempts options of None \<Rightarrow> 3 | Some n \<Rightarrow> n)
       (case baseDelay options of None \<Rightarrow> 1000 | Some d \<Rightarrow> d)
       (case maxDelay options of None \<Rightarrow> 10000 | Some d \<Rightarrow> d)
       (case backoffFactor options of None \<Rightarrow> 2 | Some f \<Rightarrow> f)
       1 None s []"

section \<open>The envelope invariant\<close>

text \<open>
  Exactly one of \<^verbatim>\<open>data\<close> and \<^verbatim>\<open>error\<close> is populated, and \<^verbatim>\<open>success\<close> says which.
\<close>

definition populatedExactlyOne :: "'a IntegrationResponse \<Rightarrow> bool" where
  "populatedExactlyOne env \<longleftrightarrow>
     (r_success env \<longrightarrow> r_data env \<noteq> None \<and> r_error env = None) \<and>
     (\<not> r_success env \<longrightarrow> r_error env \<noteq> None \<and> r_data env = None)"

section \<open>Notions used to state the behaviour of retry\<close>

text \<open>The operation's state after \<open>n\<close> invocations, starting from \<open>s\<close>.\<close>

fun stateAfter :: "('s \<Rightarrow> ('e + 'a) \<times> 's) \<Rightarrow> 's \<Rightarrow> nat \<Rightarrow> 's" where
  "stateAfter fn s 0 = s"
| "stateAfter fn s (Suc n) = stateAfter fn (snd (fn s)) n"

text \<open>What the \<open>k\<close>-th invocation answers, counting from 1.\<close>

definition outcome :: "('s \<Rightarrow> ('e + 'a) \<times> 's) \<Rightarrow> 's \<Rightarrow> nat \<Rightarrow> 'e + 'a" where
  "outcome fn s k = fst (fn (stateAfter fn s (k - 1)))"

text \<open>The number of invocations among a list of events.\<close>

definition invocations :: "event list \<Rightarrow> nat" where
  "invocations evs = length (filter (\<lambda>ev. ev = Invoked) evs)"

text \<open>
  The events of \<open>n\<close> invocations in a row, the first of them being attempt number
  \<open>attempt\<close>, with the delay awaited after each one but the last.
\<close>

fun eventsFrom :: "real \<Rightarrow> real \<Rightarrow> real \<Rightarrow> int \<Rightarrow> nat \<Rightarrow> event list" where
  "eventsFrom base factor cap attempt 0 = []"
| "eventsFrom base factor cap attempt (Suc 0) = [Invoked]"
| "eventsFrom base factor cap attempt (Suc (Suc n)) =
     Invoked # Slept (retryDelay base factor cap attempt)
       # eventsFrom base factor cap (attempt + 1) (Suc n)"

section \<open>Sample inputs\<close>

text \<open>Concrete objects and connector behaviours on which the operations are run below.\<close>

definition plainChannel :: SlackChannel where
  "plainChannel =
     \<lparr> sc_id = ''C1'', sc_name = ''general'', sc_is_channel = None, sc_is_group = None,
       sc_is_im = None, sc_is_mpim = None, sc_is_private = None, sc_is_archived = None,
       sc_is_general = None, sc_is_shared = None, sc_is_org_shared = None,
       sc_is_member = None, sc_purpose = None, sc_topic = None, sc_num_members = None \<rparr>"

definition activeUser :: SlackUser where
  "activeUser =
     \<lparr> su_id = ''U123'', su_name = ''testbot'', su_real_name = Some ''Test Bot'',
       su_display_name = None, su_email = None, su_image_24 = None, su_image_32 = None,
       su_image_48 = None, su_image_72 = None, su_image_192 = None, su_image_512 = None,
       su_is_bot = Some True, su_is_app_user = None, su_presence = Some ''active'',
       su_profile = None \<rparr>"

definition sampleRuntime :: runtime where
  "sampleRuntime =
     \<lparr> now = ''2024-01-01T00:00:00.000Z'', development = False, stackTrace = [] \<rparr>"

definition sampleConfig :: SlackConfig where
  "sampleConfig =
     \<lparr> nangoConnectionId = ''test-conn-id'', botToken = None, appToken = None,
       signingSecret = None, defaultChannel = None \<rparr>"

definition sampleMessage :: "string \<Rightarrow> SendMessageRequest" where
  "sampleMessage body =
     \<lparr> m_channel = ''#general'', m_text = body, m_thread_ts = None, m_reply_broadcast = None,
       m_username = None, m_icon_emoji = None, m_icon_url = None, m_attachments = None,
       m_blocks = None \<rparr>"



definition okBody :: ApiData where
  "okBody = \<lparr> a_ok = True, a_error = None, a_user = None, a_members = None,
              a_channels = None, a_response_metadata = None \<rparr>"

text \<open>A connector that accepts every call; a sent message gets the given answer.\<close>

definition answeringWorld :: "ActionResponse \<Rightarrow> world" where
  "answeringWorld answer =
     \<lparr> proxy = (\<lambda>req. ProxyReturns (Some okBody)),
       triggerAction = (\<lambda>req. ActionReturns (Some answer)) \<rparr>"

definition sentAnswer :: ActionResponse where
  "sentAnswer = \<lparr> ar_ok = True, ar_error = None, ar_ts = Some ''1234567890.123456'',
                  ar_raw_json = None \<rparr>"

definition notInChannelAnswer :: ActionResponse where
  "notInChannelAnswer = \<lparr> ar_ok = False, ar_error = Some ''not_in_channel'', ar_ts = None,
                          ar_raw_json = None \<rparr>"

text \<open>A connector whose every proxied call is rejected with HTTP status 401.\<close>

definition unauthorizedWorld :: world where
  "unauthorizedWorld =
     \<lparr> proxy = (\<lambda>req. ProxyThrows (Some 401) (Some ''Request failed with status code 401'')),
       triggerAction = (\<lambda>req. ActionThrows ''Request failed with status code 401'') \<rparr>"

text \<open>A connector that authenticates but refuses to list conversations (status 403).\<close>

definition limitedWorld :: world where
  "limitedWorld =
     \<lparr> proxy = (\<lambda>req. if pr_endpoint req = ''/auth.test'' then ProxyReturns (Some okBody)
                        else ProxyThrows (Some 403) (Some ''Request failed with status code 403'')),
       triggerAction = (\<lambda>req. ActionThrows ''Request failed with status code 403'') \<rparr>"

text \<open>
  An operation that rejects on its first two invocations and resolves afterwards. Its state
  counts the invocations so far, and a rejection carries the number of the invocation.
\<close>

definition failsTwice :: "nat \<Rightarrow> (nat + string) \<times> nat" where
  "failsTwice n = (if n < 2 then Inl (n + 1) else Inr ''done'', n + 1)"

text \<open>An operation that always rejects, with the number of the invocation.\<close>

definition alwaysFails :: "nat \<Rightarrow> (nat + string) \<times> nat" where
  "alwaysFails n = (Inl (n + 1), n + 1)"

definition sampleOptions :: RetryOptions where
  "sampleOptions = \<lparr> maxAttempts = Some 3, baseDelay = Some 1000, maxDelay = Some 10000,
                     backoffFactor = Some 2 \<rparr>"

section \<open>Properties of the transformer\<close>

text \<open>
  Claim C6. For every Slack channel object, \<^verbatim>\<open>toStandardChannel\<close> derives the type with
  the precedence direct, group, private, public: a truthy \<^verbatim>\<open>is_im\<close> gives
  \<^verbatim>\<open>direct\<close> whatever the other flags are; otherwise a truthy \<^verbatim>\<open>is_mpim\<close> or
  \<^verbatim>\<open>is_group\<close> gives \<^verbatim>\<open>group\<close>, also when \<^verbatim>\<open>is_private\<close> is set; otherwise a
  truthy \<^verbatim>\<open>is_private\<close> gives \<^verbatim>\<open>private\<close>; with none of the four flags set the type
  is \<^verbatim>\<open>public\<close>.
\<close>

theorem toStandardChannel_type_precedence:
  "(flag (sc_is_im ch) \<longrightarrow> c_type (toStandardChannel ch) = Direct) \<and>
   (\<not> flag (sc_is_im ch) \<and> (flag (sc_is_mpim ch) \<or> flag (sc_is_group ch)) \<longrightarrow>
      c_type (toStandardChannel ch) = Group) \<and>
   (\<not> flag (sc_is_im ch) \<and> \<not> flag (sc_is_mpim ch) \<and> \<not> flag (sc_is_group ch) \<and>
      flag (sc_is_private ch) \<longrightarrow> c_type (toStandardChannel ch) = Private) \<and>
   (\<not> flag (sc_is_im ch) \<and> \<not> flag (sc_is_mpim ch) \<and> \<not> flag (sc_is_group ch) \<and>
      \<not> flag (sc_is_private ch) \<longrightarrow> c_type (toStandardChannel ch) = Public)"
  by (simp add: toStandardChannel_def channelType_def)

text \<open>
  The four cases on concrete channels: all of \<^verbatim>\<open>is_im\<close>, \<^verbatim>\<open>is_group\<close>,
  \<^verbatim>\<open>is_private\<close> set; \<^verbatim>\<open>is_group\<close> and \<^verbatim>\<open>is_private\<close> set; only
  \<^verbatim>\<open>is_private\<close> set; no flag set.
\<close>

theorem toStandardChannel_type_precedence_witness:
  "c_type (toStandardChannel (plainChannel\<lparr> sc_is_im := Some True, sc_is_group := Some True,
                                            sc_is_private := Some True \<rparr>)) = Direct \<and>
   c_type (toStandardChannel (plainChannel\<lparr> sc_is_group := Some True,
                                            sc_is_private := Some True \<rparr>)) = Group \<and>
   c_type (toStandardChannel (plainChannel\<lparr> sc_is_private := Some True \<rparr>)) = Private \<and>
   c_type (toStandardChannel plainChannel) = Public"
  using toStandardChannel_type_precedence
          [of "plainChannel\<lparr> sc_is_im := Some True, sc_is_group := Some True,
                              sc_is_private := Some True \<rparr>"]
        toStandardChannel_type_precedence
          [of "plainChannel\<lparr> sc_is_group := Some True, sc_is_private := Some True \<rparr>"]
        toStandardChannel_type_precedence [of "plainChannel\<lparr> sc_is_private := Some True \<rparr>"]
        toStandardChannel_type_precedence [of plainChannel]
  by (simp add: plainChannel_def)

text \<open>
  Claim C7, as stated: applying \<^verbatim>\<open>toStandardUser\<close> to its own output re-derives the same
  id, name and status. It fails for the status of a user whose presence is \<^verbatim>\<open>active\<close>:
  the first application gives \<^verbatim>\<open>online\<close>, and the standard shape has no
  \<^verbatim>\<open>presence\<close> property, so the second gives \<^verbatim>\<open>offline\<close>.
\<close>

theorem toStandardUser_reapplied_status_counterexample:
  "u_status (toStandardUser (asSlackUser (toStandardUser activeUser))) \<noteq>
   u_status (toStandardUser activeUser)"
  by (simp add: toStandardUser_def asSlackUser_def activeUser_def)

text \<open>
  Claim C7, amended. For every Slack user object \<open>u\<close>, applying \<^verbatim>\<open>toStandardUser\<close> to the
  standard shape produced by \<^verbatim>\<open>toStandardUser(u)\<close> re-derives the same id and the same
  name; the status it re-derives is always \<^verbatim>\<open>offline\<close>, which is the status of
  \<^verbatim>\<open>toStandardUser(u)\<close> exactly when the presence of \<open>u\<close> is not \<^verbatim>\<open>active\<close>.
\<close>

theorem toStandardUser_reapplied:
  "u_id (toStandardUser (asSlackUser (toStandardUser u))) = u_id (toStandardUser u) \<and>
   u_name (toStandardUser (asSlackUser (toStandardUser u))) = u_name (toStandardUser u) \<and>
   u_status (toStandardUser (asSlackUser (toStandardUser u))) = Some Offline \<and>
   (u_status (toStandardUser (asSlackUser (toStandardUser u))) = u_status (toStandardUser u)
      \<longleftrightarrow> su_presence u \<noteq> Some ''active'')"
  by (simp add: toStandardUser_def asSlackUser_def or_str_def or_else_def profile_field_def)

text \<open>
  A bot user with presence \<^verbatim>\<open>active\<close> and a real name: id and name come back, the
  status does not.
\<close>

theorem toStandardUser_reapplied_witness:
  "u_id (toStandardUser (asSlackUser (toStandardUser activeUser))) = ''U123'' \<and>
   u_name (toStandardUser (asSlackUser (toStandardUser activeUser))) = ''Test Bot'' \<and>
   u_status (toStandardUser (asSlackUser (toStandardUser activeUser))) = Some Offline \<and>
   u_status (toStandardUser activeUser) = Some Online"
  using toStandardUser_reapplied [of activeUser]
  by (simp add: toStandardUser_def activeUser_def or_str_def or_else_def profile_field_def)

section \<open>Properties of the registry\<close>

lemma has_iff: "has r ident \<longleftrightarrow> ident \<in> fst ` set r"
  by (simp add: has_def map_of_eq_None_iff)

lemma filter_same_iff: "filter P xs = xs \<longleftrightarrow> (\<forall>x\<in>set xs. P x)"
  by (induction xs) (auto simp: filter_id_conv dest: filter_eq_ConsD)

lemma unregister_changes: "snd (unregister r ident) \<noteq> r \<longleftrightarrow> has r ident"
  by (auto simp: unregister_def has_iff filter_same_iff)

lemma unregister_absent: "\<not> has (snd (unregister r ident)) ident"
  by (auto simp: unregister_def has_iff)

text \<open>
  Claim C5. For every registry state and adapter: \<^verbatim>\<open>register\<close> throws when an adapter
  with the same identifier is already registered and leaves the registry as it was (when
  the identifier is new it stores the adapter); \<^verbatim>\<open>get\<close> of an identifier that is not
  registered returns \<^verbatim>\<open>undefined\<close>, as a value and not as an error; \<^verbatim>\<open>unregister\<close>
  returns whether an entry was removed, and a second \<^verbatim>\<open>unregister\<close> of the same
  identifier returns false and changes nothing.
\<close>

theorem registry_contract:
  "(has r (i_id a) \<longrightarrow>
      fst (register r a) = Inl (Error (''Integration '' @ i_id a @ '' is already registered'')) \<and>
      snd (register r a) = r) \<and>
   (\<not> has r (i_id a) \<longrightarrow>
      fst (register r a) = Inr () \<and> get (snd (register r a)) (i_id a) = Some a) \<and>
   (\<not> has r ident \<longrightarrow> get r ident = None) \<and>
   (fst (unregister r ident) \<longleftrightarrow> has r ident) \<and>
   (fst (unregister r ident) \<longleftrightarrow> snd (unregister r ident) \<noteq> r) \<and>
   get (snd (unregister r ident)) ident = None \<and>
   unregister (snd (unregister r ident)) ident = (False, snd (unregister r ident))"
proof -
  have dup: "has r (i_id a) \<longrightarrow>
      fst (register r a) = Inl (Error (''Integration '' @ i_id a @ '' is already registered'')) \<and>
      snd (register r a) = r"
    by (simp add: register_def)
  have fresh: "\<not> has r (i_id a) \<longrightarrow>
      fst (register r a) = Inr () \<and> get (snd (register r a)) (i_id a) = Some a"
    by (simp add: register_def get_def has_def map_add_def)
  have absent: "\<not> has r ident \<longrightarrow> get r ident = None"
    by (simp add: has_def get_def)
  have removed: "fst (unregister r ident) \<longleftrightarrow> has r ident"
    by (simp add: unregister_def)
  have changed: "fst (unregister r ident) \<longleftrightarrow> snd (unregister r ident) \<noteq> r"
    using unregister_changes [of r ident] by (simp add: unregister_def)
  have gone: "get (snd (unregister r ident)) ident = None"
    using unregister_absent [of r ident] by (simp add: has_def get_def)
  have again: "unregister (snd (unregister r ident)) ident = (False, snd (unregister r ident))"
    using unregister_absent [of r ident] by (simp add: unregister_def)
  from dup fresh absent removed changed gone again show ?thesis by blast
qed

text \<open>
  A registry holding one adapter \<^verbatim>\<open>slack\<close>: registering a second adapter under that
  identifier throws and keeps the first, \<^verbatim>\<open>get('teams')\<close> is \<^verbatim>\<open>undefined\<close>,
  unregistering \<^verbatim>\<open>slack\<close> returns true, and unregistering it again returns false.
\<close>

theorem registry_contract_witness:
  "has [(''slack'', \<lparr> i_id = ''slack'', i_enabled = True, i_impl = ''first'' \<rparr>)] ''slack'' \<and>
   register [(''slack'', \<lparr> i_id = ''slack'', i_enabled = True, i_impl = ''first'' \<rparr>)]
            \<lparr> i_id = ''slack'', i_enabled = False, i_impl = ''second'' \<rparr> =
     (Inl (Error ''Integration slack is already registered''),
      [(''slack'', \<lparr> i_id = ''slack'', i_enabled = True, i_impl = ''first'' \<rparr>)]) \<and>
   \<not> has [(''slack'', \<lparr> i_id = ''slack'', i_enabled = True, i_impl = ''first'' \<rparr>)] ''teams'' \<and>
   get [(''slack'', \<lparr> i_id = ''slack'', i_enabled = True, i_impl = ''first'' \<rparr>)] ''teams'' = None \<and>
   unregister [(''slack'', \<lparr> i_id = ''slack'', i_enabled = True, i_impl = ''first'' \<rparr>)] ''slack''
     = (True, []) \<and>
   unregister ([] :: string registry) ''slack'' = (False, [])"
  using registry_contract
          [of "[(''slack'', \<lparr> i_id = ''slack'', i_enabled = True, i_impl = ''first'' \<rparr>)]"
              "\<lparr> i_id = ''slack'', i_enabled = False, i_impl = ''second'' \<rparr>" "''teams''"]
        registry_contract
          [of "[(''slack'', \<lparr> i_id = ''slack'', i_enabled = True, i_impl = ''first'' \<rparr>)]"
              "\<lparr> i_id = ''slack'', i_enabled = False, i_impl = ''second'' \<rparr>" "''slack''"]
  by (simp add: has_def get_def unregister_def prod_eq_iff)

section \<open>Properties of testConnection and initialize\<close>

lemma testConnectionTry_throws_noChecks:
  "testConnectionTry rt w config = (Inl e, checks, calls) \<Longrightarrow> checks = noChecks"
  by (auto simp: testConnectionTry_def Let_def
           split: option.splits prod.splits sum.splits if_splits)

lemma testConnectionTry_status:
  "testConnectionTry rt w config = (Inr h, checks, calls) \<Longrightarrow>
   h_checks h = checks \<and>
   h_status h = (if allHealthy checks then Healthy
                 else if authentication checks then Degraded else Unhealthy)"
  by (auto simp: testConnectionTry_def Let_def
           split: option.splits prod.splits sum.splits if_splits)

lemma testConnection_returns: "\<exists>h. fst (testConnection rt w config) = Inr h"
  by (auto simp: testConnection_def split: prod.splits sum.splits)

lemma testConnection_rule:
  assumes "fst (testConnection rt w config) = Inr h"
  shows "(h_status h = Healthy \<longleftrightarrow>
            authentication (h_checks h) \<and> apiAccess (h_checks h) \<and> permissions (h_checks h)) \<and>
         (h_status h = Degraded \<longleftrightarrow>
            authentication (h_checks h) \<and>
            \<not> (apiAccess (h_checks h) \<and> permissions (h_checks h))) \<and>
         (h_status h = Unhealthy \<longleftrightarrow> \<not> authentication (h_checks h))"
proof (cases "testConnectionTry rt w config")
  case (fields outcome checks calls)
  show ?thesis
  proof (cases outcome)
    case (Inl e)
    with fields have "checks = noChecks"
      using testConnectionTry_throws_noChecks by blast
    with fields Inl assms show ?thesis
      by (auto simp: testConnection_def noChecks_def)
  next
    case (Inr h')
    with fields assms have "h' = h"
      by (simp add: testConnection_def)
    with fields Inr testConnectionTry_status [of rt w config h checks calls] show ?thesis
      by (auto simp: allHealthy_def split: if_splits)
  qed
qed

text \<open>
  When \<^verbatim>\<open>/auth.test\<close> answers with a truthy \<^verbatim>\<open>ok\<close> and the call to
  \<^verbatim>\<open>/conversations.list\<close> throws, the error is caught and the health check reports
  the permissions as missing.
\<close>

lemma testConnection_permission_failure:
  assumes auth: "fst (makeApiCall w config ''/auth.test'' NoData) = Inr (Some body)" "a_ok body"
      and perm: "fst (makeApiCall w config ''/conversations.list'' (Limit 1)) = Inl e"
      and res: "fst (testConnection rt w config) = Inr h"
  shows "h_checks h = \<lparr> authentication = True, apiAccess = True, permissions = False \<rparr> \<and>
         h_status h = Degraded"
proof -
  from auth obtain c where c: "config = Some c"
    by (cases config) (auto simp: makeApiCall_def)
  obtain calls1 where calls1:
    "makeApiCall w config ''/auth.test'' NoData = (Inr (Some body), calls1)"
    using auth(1) by (cases "makeApiCall w config ''/auth.test'' NoData") auto
  obtain calls2 where calls2:
    "makeApiCall w config ''/conversations.list'' (Limit 1) = (Inl e, calls2)"
    using perm by (cases "makeApiCall w config ''/conversations.list'' (Limit 1)") auto
  from c calls1 calls2 auth(2) res show ?thesis
    by (auto simp: testConnection_def testConnectionTry_def probePermissions_def noChecks_def
                   allHealthy_def)
qed

text \<open>
  Claim C4. Every run of \<^verbatim>\<open>testConnection\<close> returns a health check and never throws.
  Its status is \<^verbatim>\<open>healthy\<close> iff the three checks are true, \<^verbatim>\<open>degraded\<close> iff
  authentication is true and one of the other two is false, and \<^verbatim>\<open>unhealthy\<close> iff
  authentication is false. A failure of the permission probe after a successful
  authentication is caught and recorded as \<^verbatim>\<open>permissions = false\<close>.
\<close>

theorem testConnection_status:
  "\<exists>h. fst (testConnection rt w config) = Inr h \<and>
     (h_status h = Healthy \<longleftrightarrow>
        authentication (h_checks h) \<and> apiAccess (h_checks h) \<and> permissions (h_checks h)) \<and>
     (h_status h = Degraded \<longleftrightarrow>
        authentication (h_checks h) \<and> \<not> (apiAccess (h_checks h) \<and> permissions (h_checks h))) \<and>
     (h_status h = Unhealthy \<longleftrightarrow> \<not> authentication (h_checks h)) \<and>
     (\<forall>body e. fst (makeApiCall w config ''/auth.test'' NoData) = Inr (Some body) \<and> a_ok body \<and>
               fst (makeApiCall w config ''/conversations.list'' (Limit 1)) = Inl e \<longrightarrow>
        h_checks h = \<lparr> authentication = True, apiAccess = True, permissions = False \<rparr> \<and>
        h_status h = Degraded)"
proof -
  obtain h where h: "fst (testConnection rt w config) = Inr h"
    using testConnection_returns by blast
  show ?thesis
    using h testConnection_rule [OF h] testConnection_permission_failure [of w config _ _ rt h]
    by blast
qed

text \<open>
  A connector that authenticates and then refuses \<^verbatim>\<open>/conversations.list\<close> with status
  403: the health check is returned, \<^verbatim>\<open>degraded\<close>, with the permission check false.
\<close>

theorem testConnection_status_witness:
  "fst (makeApiCall limitedWorld (Some sampleConfig) ''/auth.test'' NoData) = Inr (Some okBody) \<and>
   a_ok okBody \<and>
   fst (makeApiCall limitedWorld (Some sampleConfig) ''/conversations.list'' (Limit 1)) =
     Inl (Error ''Insufficient permissions'') \<and>
   fst (testConnection sampleRuntime limitedWorld (Some sampleConfig)) =
     Inr \<lparr> h_status = Degraded, h_timestamp = ''2024-01-01T00:00:00.000Z'',
           h_checks = \<lparr> authentication = True, apiAccess = True, permissions = False \<rparr>,
           h_details = [(''connectionId'', ''test-conn-id'')] \<rparr>"
  using testConnection_status [of sampleRuntime limitedWorld "Some sampleConfig"]
  by (simp add: testConnection_def testConnectionTry_def probePermissions_def makeApiCall_def
                limitedWorld_def sampleConfig_def sampleRuntime_def okBody_def noChecks_def
                allHealthy_def)

text \<open>
  Claim C3, as stated: for every configuration whose connectivity probe fails,
  \<^verbatim>\<open>initialize\<close> throws. Run on a fresh adapter against a connector that rejects
  every proxied call with status 401, the probe reports \<^verbatim>\<open>unhealthy\<close> and
  \<^verbatim>\<open>initialize\<close> nevertheless resolves, with the configuration stored and one call
  issued.
\<close>

theorem initialize_failed_probe_counterexample:
  "initialize sampleRuntime unauthorizedWorld None sampleConfig =
     (Inr (), Some sampleConfig,
      [Proxy \<lparr> pr_endpoint = ''/auth.test'', pr_method = ''POST'', pr_data = NoData,
               pr_connectionId = ''test-conn-id'', pr_providerConfigKey = ''slack'' \<rparr>]) \<and>
   fst (testConnection sampleRuntime unauthorizedWorld (Some sampleConfig)) =
     Inr \<lparr> h_status = Unhealthy, h_timestamp = ''2024-01-01T00:00:00.000Z'',
           h_checks = \<lparr> authentication = False, apiAccess = False, permissions = False \<rparr>,
           h_details = [(''error'', ''Authentication failed - token may be expired'')] \<rparr>"
  by (simp add: initialize_def validateInput_def SlackConfigSchema_def parsed_def string_min1_def
                testConnection_def testConnectionTry_def makeApiCall_def unauthorizedWorld_def
                sampleConfig_def sampleRuntime_def noChecks_def)

text \<open>
  Claim C3, amended. For every configuration that passes the configuration schema (a
  non-empty \<^verbatim>\<open>nangoConnectionId\<close>), \<^verbatim>\<open>initialize\<close> stores the configuration, runs
  the connectivity probe (it issues the calls of \<^verbatim>\<open>testConnection\<close>) and resolves,
  whatever the probe reports: a failed probe is caught inside \<^verbatim>\<open>testConnection\<close> and
  its health check is not inspected. \<^verbatim>\<open>initialize\<close> throws only for a configuration
  that fails the schema; it then issues no call and leaves the stored configuration as it
  was.
\<close>

theorem initialize_outcome:
  "(nangoConnectionId config \<noteq> [] \<longrightarrow>
      fst (initialize rt w config0 config) = Inr () \<and>
      fst (snd (initialize rt w config0 config)) = Some config \<and>
      snd (snd (initialize rt w config0 config)) = snd (testConnection rt w (Some config))) \<and>
   (nangoConnectionId config = [] \<longrightarrow>
      initialize rt w config0 config =
        (Inl (Error (''Failed to initialize Slack integration: '' @
                     ''Validation failed: Nango connection ID is required'')),
         config0, []))"
proof -
  have valid: "nangoConnectionId config \<noteq> [] \<longrightarrow>
      fst (initialize rt w config0 config) = Inr () \<and>
      fst (snd (initialize rt w config0 config)) = Some config \<and>
      snd (snd (initialize rt w config0 config)) = snd (testConnection rt w (Some config))"
    using testConnection_returns [of rt w "Some config"]
    by (auto simp: initialize_def validateInput_def SlackConfigSchema_def parsed_def
                   string_min1_def
             split: prod.splits sum.splits)
  have invalid: "nangoConnectionId config = [] \<longrightarrow>
      initialize rt w config0 config =
        (Inl (Error (''Failed to initialize Slack integration: '' @
                     ''Validation failed: Nango connection ID is required'')),
         config0, [])"
    by (simp add: initialize_def validateInput_def SlackConfigSchema_def parsed_def
                  string_min1_def)
  from valid invalid show ?thesis by blast
qed

text \<open>
  The sample configuration against the connector that rejects every call, and a
  configuration with an empty connection identifier on an adapter that holds the sample
  configuration.
\<close>

theorem initialize_outcome_witness:
  "nangoConnectionId sampleConfig \<noteq> [] \<and>
   fst (initialize sampleRuntime unauthorizedWorld None sampleConfig) = Inr () \<and>
   fst (snd (initialize sampleRuntime unauthorizedWorld None sampleConfig)) = Some sampleConfig \<and>
   nangoConnectionId (sampleConfig\<lparr> nangoConnectionId := [] \<rparr>) = [] \<and>
   initialize sampleRuntime unauthorizedWorld (Some sampleConfig)
       (sampleConfig\<lparr> nangoConnectionId := [] \<rparr>) =
     (Inl (Error (''Failed to initialize Slack integration: '' @
                  ''Validation failed: Nango connection ID is required'')),
      Some sampleConfig, [])"
  using initialize_outcome [of sampleConfig sampleRuntime unauthorizedWorld None]
        initialize_outcome [of "sampleConfig\<lparr> nangoConnectionId := [] \<rparr>" sampleRuntime
                               unauthorizedWorld "Some sampleConfig"]
  by (simp add: sampleConfig_def)

section \<open>Properties of the adapter operations\<close>

text \<open>
  \<^verbatim>\<open>createResponse\<close> by itself populates at most one of the two fields; called with
  neither data nor error it populates none. The operations never call it that way.
\<close>

lemma createResponse_at_most_one:
  "r_data (createResponse rt ident ver d e) = None \<or> r_error (createResponse rt ident ver d e) = None"
  by (simp add: createResponse_def)

lemma createResponse_neither:
  "r_success (createResponse rt ident ver None None) \<and>
   r_data (createResponse rt ident ver None None) = None \<and>
   r_error (createResponse rt ident ver None None) = None"
  by (simp add: createResponse_def)

lemma slackResponse_error: "populatedExactlyOne (slackResponse rt None (Some e))"
  by (simp add: populatedExactlyOne_def slackResponse_def createResponse_def)

lemma slackResponse_data: "populatedExactlyOne (slackResponse rt (Some d) None)"
  by (simp add: populatedExactlyOne_def slackResponse_def createResponse_def)

lemma caught_envelope: "populatedExactlyOne (caught rt prefix e)"
  by (simp add: caught_def slackResponse_error)

lemma sendMessageTry_envelope:
  "sendMessageTry rt w config request = (Inr env, calls) \<Longrightarrow> populatedExactlyOne env"
  by (auto simp: sendMessageTry_def sendRejected_def Let_def slackResponse_error slackResponse_data
           split: sum.splits option.splits action_outcome.splits if_splits)

lemma sendMessage_envelope: "populatedExactlyOne (fst (sendMessage rt w config request))"
proof (cases "sendMessageTry rt w config request")
  case (Pair outcome calls)
  then show ?thesis
    by (cases outcome) (auto simp: sendMessage_def caught_envelope dest: sendMessageTry_envelope)
qed

lemma getUserInfoTry_envelope:
  "getUserInfoTry rt w config request = (Inr env, calls) \<Longrightarrow> populatedExactlyOne env"
  by (auto simp: getUserInfoTry_def slackResponse_error slackResponse_data
           split: sum.splits option.splits prod.splits)

lemma getUserInfo_envelope: "populatedExactlyOne (fst (getUserInfo rt w config request))"
proof (cases "getUserInfoTry rt w config request")
  case (Pair outcome calls)
  then show ?thesis
    by (cases outcome) (auto simp: getUserInfo_def caught_envelope dest: getUserInfoTry_envelope)
qed

lemma getUsersTry_envelope:
  "getUsersTry rt w config request = (Inr env, calls) \<Longrightarrow> populatedExactlyOne env"
  by (auto simp: getUsersTry_def slackResponse_error slackResponse_data
           split: sum.splits option.splits prod.splits)

lemma getUsers_envelope: "populatedExactlyOne (fst (getUsers rt w config request))"
proof (cases "getUsersTry rt w config request")
  case (Pair outcome calls)
  then show ?thesis
    by (cases outcome) (auto simp: getUsers_def caught_envelope dest: getUsersTry_envelope)
qed

lemma getChannelsTry_envelope:
  "getChannelsTry rt w config request = (Inr env, calls) \<Longrightarrow> populatedExactlyOne env"
  by (auto simp: getChannelsTry_def slackResponse_error slackResponse_data
           split: sum.splits option.splits prod.splits)

lemma getChannels_envelope: "populatedExactlyOne (fst (getChannels rt w config request))"
proof (cases "getChannelsTry rt w config request")
  case (Pair outcome calls)
  then show ?thesis
    by (cases outcome) (auto simp: getChannels_def caught_envelope dest: getChannelsTry_envelope)
qed

text \<open>
  Claim C1. Every envelope returned by \<^verbatim>\<open>sendMessage\<close>, \<^verbatim>\<open>getUserInfo\<close>,
  \<^verbatim>\<open>getUsers\<close> or \<^verbatim>\<open>getChannels\<close> has exactly one of \<^verbatim>\<open>data\<close> and \<^verbatim>\<open>error\<close>
  populated: with \<^verbatim>\<open>success\<close> true the data is present and the error absent, with
  \<^verbatim>\<open>success\<close> false the error is present and the data absent.
\<close>

theorem operations_populate_exactly_one:
  "populatedExactlyOne (fst (sendMessage rt w config message)) \<and>
   populatedExactlyOne (fst (getUserInfo rt w config userInfoRequest)) \<and>
   populatedExactlyOne (fst (getUsers rt w config usersRequest)) \<and>
   populatedExactlyOne (fst (getChannels rt w config channelsRequest))"
  by (simp add: sendMessage_envelope getUserInfo_envelope getUsers_envelope getChannels_envelope)

text \<open>
  A message the provider accepts and one it rejects with \<^verbatim>\<open>not_in_channel\<close>.
\<close>

theorem operations_populate_exactly_one_witness:
  "r_success (fst (sendMessage sampleRuntime (answeringWorld sentAnswer) (Some sampleConfig)
                     (sampleMessage ''hi''))) \<and>
   r_data (fst (sendMessage sampleRuntime (answeringWorld sentAnswer) (Some sampleConfig)
                  (sampleMessage ''hi''))) \<noteq> None \<and>
   r_error (fst (sendMessage sampleRuntime (answeringWorld sentAnswer) (Some sampleConfig)
                   (sampleMessage ''hi''))) = None \<and>
   \<not> r_success (fst (sendMessage sampleRuntime (answeringWorld notInChannelAnswer)
                       (Some sampleConfig) (sampleMessage ''hi''))) \<and>
   r_data (fst (sendMessage sampleRuntime (answeringWorld notInChannelAnswer)
                  (Some sampleConfig) (sampleMessage ''hi''))) = None \<and>
   r_error (fst (sendMessage sampleRuntime (answeringWorld notInChannelAnswer)
                   (Some sampleConfig) (sampleMessage ''hi''))) \<noteq> None"
proof -
  have accepted:
    "r_success (fst (sendMessage sampleRuntime (answeringWorld sentAnswer) (Some sampleConfig)
                       (sampleMessage ''hi'')))"
    by (simp add: sendMessage_def sendMessageTry_def validateInput_def SendMessageSchema_def
                  parsed_def string_min1_def sampleMessage_def answeringWorld_def
                  sentAnswer_def slackResponse_def createResponse_def)
  have rejected:
    "\<not> r_success (fst (sendMessage sampleRuntime (answeringWorld notInChannelAnswer)
                         (Some sampleConfig) (sampleMessage ''hi'')))"
    by (simp add: sendMessage_def sendMessageTry_def validateInput_def SendMessageSchema_def
                  parsed_def string_min1_def sampleMessage_def answeringWorld_def
                  notInChannelAnswer_def sendRejected_def Let_def slackResponse_def
                  createResponse_def)
  show ?thesis
    using accepted rejected
      operations_populate_exactly_one
        [of sampleRuntime "answeringWorld sentAnswer" "Some sampleConfig" "sampleMessage ''hi''"]
      operations_populate_exactly_one
        [of sampleRuntime "answeringWorld notInChannelAnswer" "Some sampleConfig"
            "sampleMessage ''hi''"]
    by (simp add: populatedExactlyOne_def)
qed

subsection \<open>Malformed input\<close>





text \<open>
  \<^verbatim>\<open>SendMessageSchema\<close> accepts every request with a non-empty channel and a non-empty
  text, however long; \<^verbatim>\<open>messageContentSchema\<close>, which it does not use, is the one that
  bounds a text by 4000.
\<close>

lemma SendMessageSchema_accepts:
  "m_channel request \<noteq> [] \<Longrightarrow> m_text request \<noteq> [] \<Longrightarrow> SendMessageSchema request = Inr request"
  by (simp add: SendMessageSchema_def parsed_def string_min1_def)

lemma messageContentSchema_bound:
  "messageContentSchema s = Inr s \<longleftrightarrow> 1 \<le> length s \<and> length s \<le> 4000"
  by (cases s) (auto simp: messageContentSchema_def parsed_def)






subsection \<open>What sendMessage makes of the provider's answer\<close>

text \<open>
  With a stored configuration and a request that passes its schema, \<^verbatim>\<open>sendMessage\<close>
  triggers the action once and builds its envelope from the answer.
\<close>

lemma sendMessage_answered:
  assumes "config = Some c" "m_channel request \<noteq> []" "m_text request \<noteq> []"
      and "triggerAction w \<lparr> ac_provider = ''slack'', ac_connectionId = nangoConnectionId c,
                              ac_action = ''send-message'', ac_channel = m_channel request,
                              ac_text = m_text request \<rparr> = ActionReturns (Some response)"
  shows "fst (sendMessage rt w config request) =
           (if \<not> ar_ok response then sendRejected rt response
            else slackResponse rt
                   (Some \<lparr> messageId = or_str (ar_ts response) [],
                            timestamp_of = or_str (ar_ts response) [] \<rparr>) None)"
  using assms
  by (simp add: sendMessage_def sendMessageTry_def validateInput_def SendMessageSchema_def
                parsed_def string_min1_def)

lemma sendRejected_fields:
  "\<not> r_success (sendRejected rt response) \<and>
   r_data (sendRejected rt response) = None \<and>
   map_option e_code (r_error (sendRejected rt response)) = Some API_ERROR \<and>
   map_option e_details (r_error (sendRejected rt response)) =
     Some (Some [(''slackError'', ar_error response),
                 (''suggestions'', Some (suggestionFor (ar_error response))),
                 (''errorType'', ar_error response),
                 (''rawResponse'', ar_raw_json response)])"
  by (simp add: sendRejected_def Let_def slackResponse_def createResponse_def createError_def)

lemma suggestionFor_table:
  "suggestionFor (Some ''not_in_channel'') =
     ''You are not a member of this channel. Please join the channel first.'' \<and>
   suggestionFor (Some ''channel_not_found'') =
     ''The specified channel does not exist or you do not have access to it.'' \<and>
   suggestionFor (Some ''access_denied'') =
     ''You do not have permission to post messages to this channel. Check your channel permissions.'' \<and>
   suggestionFor (Some ''account_inactive'') =
     ''Your Slack account or workspace is inactive.'' \<and>
   suggestionFor (Some ''token_expired'') =
     ''Your authentication token has expired. Please reconnect the integration.'' \<and>
   suggestionFor (Some ''restricted_action'') =
     ''Message posting is restricted in this channel. Contact your workspace admin.''"
  by (simp add: suggestionFor_def)

lemma suggestionFor_default:
  "slackError \<notin> {Some ''not_in_channel'', Some ''channel_not_found'', Some ''access_denied'',
                   Some ''account_inactive'', Some ''token_expired'', Some ''restricted_action''}
   \<Longrightarrow> suggestionFor slackError =
         ''Please check the channel ID and ensure you have access to post messages.''"
  by (simp add: suggestionFor_def)

text \<open>
  Claim C9. When the provider rejects a message (an answer whose \<^verbatim>\<open>ok\<close> is false), the
  envelope has \<^verbatim>\<open>success\<close> false, no data, the error code \<^verbatim>\<open>API_ERROR\<close>, and
  \<^verbatim>\<open>error.details.suggestions\<close> holds the hint looked up for the provider's error code:
  one hint for each of \<^verbatim>\<open>not_in_channel\<close>, \<^verbatim>\<open>channel_not_found\<close>,
  \<^verbatim>\<open>access_denied\<close>, \<^verbatim>\<open>account_inactive\<close>, \<^verbatim>\<open>token_expired\<close> and
  \<^verbatim>\<open>restricted_action\<close>, and one generic hint for every other code and for none.
\<close>

theorem sendMessage_provider_rejection:
  "(config = Some c \<and> m_channel request \<noteq> [] \<and> m_text request \<noteq> [] \<and>
    triggerAction w \<lparr> ac_provider = ''slack'', ac_connectionId = nangoConnectionId c,
                      ac_action = ''send-message'', ac_channel = m_channel request,
                      ac_text = m_text request \<rparr> = ActionReturns (Some response) \<and>
    \<not> ar_ok response \<longrightarrow>
      \<not> r_success (fst (sendMessage rt w config request)) \<and>
      r_data (fst (sendMessage rt w config request)) = None \<and>
      (\<exists>e d. r_error (fst (sendMessage rt w config request)) = Some e \<and>
              e_code e = API_ERROR \<and> e_details e = Some d \<and>
              map_of d ''suggestions'' = Some (Some (suggestionFor (ar_error response))))) \<and>
   suggestionFor (Some ''not_in_channel'') =
     ''You are not a member of this channel. Please join the channel first.'' \<and>
   suggestionFor (Some ''channel_not_found'') =
     ''The specified channel does not exist or you do not have access to it.'' \<and>
   suggestionFor (Some ''access_denied'') =
     ''You do not have permission to post messages to this channel. Check your channel permissions.'' \<and>
   suggestionFor (Some ''account_inactive'') =
     ''Your Slack account or workspace is inactive.'' \<and>
   suggestionFor (Some ''token_expired'') =
     ''Your authentication token has expired. Please reconnect the integration.'' \<and>
   suggestionFor (Some ''restricted_action'') =
     ''Message posting is restricted in this channel. Contact your workspace admin.'' \<and>
   (slackError \<notin> {Some ''not_in_channel'', Some ''channel_not_found'', Some ''access_denied'',
                    Some ''account_inactive'', Some ''token_expired'', Some ''restricted_action''}
      \<longrightarrow> suggestionFor slackError =
            ''Please check the channel ID and ensure you have access to post messages.'')"
proof -
  have envelope:
    "config = Some c \<and> m_channel request \<noteq> [] \<and> m_text request \<noteq> [] \<and>
     triggerAction w \<lparr> ac_provider = ''slack'', ac_connectionId = nangoConnectionId c,
                       ac_action = ''send-message'', ac_channel = m_channel request,
                       ac_text = m_text request \<rparr> = ActionReturns (Some response) \<and>
     \<not> ar_ok response \<longrightarrow>
       \<not> r_success (fst (sendMessage rt w config request)) \<and>
       r_data (fst (sendMessage rt w config request)) = None \<and>
       (\<exists>e d. r_error (fst (sendMessage rt w config request)) = Some e \<and>
               e_code e = API_ERROR \<and> e_details e = Some d \<and>
               map_of d ''suggestions'' = Some (Some (suggestionFor (ar_error response))))"
  proof (intro impI, elim conjE)
    assume a: "config = Some c" "m_channel request \<noteq> []" "m_text request \<noteq> []"
      "triggerAction w \<lparr> ac_provider = ''slack'', ac_connectionId = nangoConnectionId c,
                         ac_action = ''send-message'', ac_channel = m_channel request,
                         ac_text = m_text request \<rparr> = ActionReturns (Some response)"
      "\<not> ar_ok response"
    have eq: "fst (sendMessage rt w config request) = sendRejected rt response"
      using sendMessage_answered [OF a(1-4), of rt] a(5) by simp
    obtain e where e: "r_error (sendRejected rt response) = Some e"
      using sendRejected_fields [of rt response] by (cases "r_error (sendRejected rt response)") auto
    with sendRejected_fields [of rt response]
    have "e_code e = API_ERROR"
      and "e_details e = Some [(''slackError'', ar_error response),
                               (''suggestions'', Some (suggestionFor (ar_error response))),
                               (''errorType'', ar_error response),
                               (''rawResponse'', ar_raw_json response)]"
      by simp_all
    with e eq sendRejected_fields [of rt response]
    show "\<not> r_success (fst (sendMessage rt w config request)) \<and>
          r_data (fst (sendMessage rt w config request)) = None \<and>
          (\<exists>e d. r_error (fst (sendMessage rt w config request)) = Some e \<and>
                  e_code e = API_ERROR \<and> e_details e = Some d \<and>
                  map_of d ''suggestions'' = Some (Some (suggestionFor (ar_error response))))"
      by simp
  qed
  from envelope suggestionFor_table suggestionFor_default [of slackError]
  show ?thesis by blast
qed

text \<open>
  The message \<^verbatim>\<open>{channel: '#general', text: 'hi'}\<close> against the answer
  \<^verbatim>\<open>{ok: false, error: 'not_in_channel'}\<close>.
\<close>

theorem sendMessage_provider_rejection_witness:
  "triggerAction (answeringWorld notInChannelAnswer)
     \<lparr> ac_provider = ''slack'', ac_connectionId = nangoConnectionId sampleConfig,
       ac_action = ''send-message'', ac_channel = m_channel (sampleMessage ''hi''),
       ac_text = m_text (sampleMessage ''hi'') \<rparr> = ActionReturns (Some notInChannelAnswer) \<and>
   \<not> ar_ok notInChannelAnswer \<and>
   \<not> r_success (fst (sendMessage sampleRuntime (answeringWorld notInChannelAnswer)
                       (Some sampleConfig) (sampleMessage ''hi''))) \<and>
   r_data (fst (sendMessage sampleRuntime (answeringWorld notInChannelAnswer)
                  (Some sampleConfig) (sampleMessage ''hi''))) = None \<and>
   (\<exists>e d. r_error (fst (sendMessage sampleRuntime (answeringWorld notInChannelAnswer)
                          (Some sampleConfig) (sampleMessage ''hi''))) = Some e \<and>
           e_code e = ''API_ERROR'' \<and> e_details e = Some d \<and>
           map_of d ''suggestions'' =
             Some (Some ''You are not a member of this channel. Please join the channel first.''))"
  using sendMessage_provider_rejection
          [of "Some sampleConfig" sampleConfig "sampleMessage ''hi''"
              "answeringWorld notInChannelAnswer" notInChannelAnswer sampleRuntime None]
  by (simp add: answeringWorld_def notInChannelAnswer_def sampleMessage_def API_ERROR_def
                suggestionFor_def)

text \<open>
  Claim C10. Whenever \<^verbatim>\<open>sendMessage\<close> returns data, its \<^verbatim>\<open>messageId\<close> and
  \<^verbatim>\<open>timestamp\<close> are the same string; and when the provider accepts the message (an
  answer whose \<^verbatim>\<open>ok\<close> is true) the envelope is a success whose \<^verbatim>\<open>messageId\<close> and
  \<^verbatim>\<open>timestamp\<close> are both the answer's \<^verbatim>\<open>ts\<close>, or both the empty string when the
  answer carries no \<^verbatim>\<open>ts\<close>.
\<close>

theorem sendMessage_id_is_timestamp:
  "(\<forall>d. r_data (fst (sendMessage rt w config request)) = Some d \<longrightarrow>
         messageId d = timestamp_of d) \<and>
   (config = Some c \<and> m_channel request \<noteq> [] \<and> m_text request \<noteq> [] \<and>
    triggerAction w \<lparr> ac_provider = ''slack'', ac_connectionId = nangoConnectionId c,
                      ac_action = ''send-message'', ac_channel = m_channel request,
                      ac_text = m_text request \<rparr> = ActionReturns (Some response) \<and>
    ar_ok response \<longrightarrow>
      r_success (fst (sendMessage rt w config request)) \<and>
      r_data (fst (sendMessage rt w config request)) =
        Some \<lparr> messageId = (case ar_ts response of None \<Rightarrow> [] | Some ts \<Rightarrow> ts),
               timestamp_of = (case ar_ts response of None \<Rightarrow> [] | Some ts \<Rightarrow> ts) \<rparr>)"
proof -
  have same: "\<forall>d. r_data (fst (sendMessage rt w config request)) = Some d \<longrightarrow>
                  messageId d = timestamp_of d"
    by (auto simp: sendMessage_def sendMessageTry_def sendRejected_def Let_def caught_def
                   slackResponse_def createResponse_def
             split: sum.splits option.splits action_outcome.splits if_splits)
  have ts: "or_str (ar_ts response) [] = (case ar_ts response of None \<Rightarrow> [] | Some ts \<Rightarrow> ts)"
    by (simp add: or_str_def split: option.splits)
  have accepted:
    "config = Some c \<and> m_channel request \<noteq> [] \<and> m_text request \<noteq> [] \<and>
     triggerAction w \<lparr> ac_provider = ''slack'', ac_connectionId = nangoConnectionId c,
                       ac_action = ''send-message'', ac_channel = m_channel request,
                       ac_text = m_text request \<rparr> = ActionReturns (Some response) \<and>
     ar_ok response \<longrightarrow>
       r_success (fst (sendMessage rt w config request)) \<and>
       r_data (fst (sendMessage rt w config request)) =
         Some \<lparr> messageId = (case ar_ts response of None \<Rightarrow> [] | Some ts \<Rightarrow> ts),
                timestamp_of = (case ar_ts response of None \<Rightarrow> [] | Some ts \<Rightarrow> ts) \<rparr>"
  proof (intro impI, elim conjE)
    assume a: "config = Some c" "m_channel request \<noteq> []" "m_text request \<noteq> []"
      "triggerAction w \<lparr> ac_provider = ''slack'', ac_connectionId = nangoConnectionId c,
                         ac_action = ''send-message'', ac_channel = m_channel request,
                         ac_text = m_text request \<rparr> = ActionReturns (Some response)"
      "ar_ok response"
    show "r_success (fst (sendMessage rt w config request)) \<and>
          r_data (fst (sendMessage rt w config request)) =
            Some \<lparr> messageId = (case ar_ts response of None \<Rightarrow> [] | Some ts \<Rightarrow> ts),
                   timestamp_of = (case ar_ts response of None \<Rightarrow> [] | Some ts \<Rightarrow> ts) \<rparr>"
      using sendMessage_answered [OF a(1-4), of rt] a(5) ts
      by (simp add: slackResponse_def createResponse_def)
  qed
  from same accepted show ?thesis by blast
qed

text \<open>An accepted message whose answer carries a \<^verbatim>\<open>ts\<close>, and one whose answer has none.\<close>

theorem sendMessage_id_is_timestamp_witness:
  "ar_ok sentAnswer \<and>
   r_data (fst (sendMessage sampleRuntime (answeringWorld sentAnswer) (Some sampleConfig)
                  (sampleMessage ''hi''))) =
     Some \<lparr> messageId = ''1234567890.123456'', timestamp_of = ''1234567890.123456'' \<rparr> \<and>
   r_data (fst (sendMessage sampleRuntime (answeringWorld (sentAnswer\<lparr> ar_ts := None \<rparr>))
                  (Some sampleConfig) (sampleMessage ''hi''))) =
     Some \<lparr> messageId = [], timestamp_of = [] \<rparr>"
  using sendMessage_id_is_timestamp
          [of sampleRuntime "answeringWorld sentAnswer" "Some sampleConfig"
              "sampleMessage ''hi''" sampleConfig sentAnswer]
        sendMessage_id_is_timestamp
          [of sampleRuntime "answeringWorld (sentAnswer\<lparr> ar_ts := None \<rparr>)" "Some sampleConfig"
              "sampleMessage ''hi''" sampleConfig "sentAnswer\<lparr> ar_ts := None \<rparr>"]
  by (simp add: answeringWorld_def sentAnswer_def sampleMessage_def)

section \<open>Properties of retry\<close>

declare retryLoop.simps [simp del]

lemma retryLoop_succeeds:
  "(\<forall>j<k. isl (fst (fn (stateAfter fn s j)))) \<Longrightarrow>
   fst (fn (stateAfter fn s k)) = Inr v \<Longrightarrow> attempt + int k \<le> maxA \<Longrightarrow>
   retryLoop fn maxA base cap factor attempt lastError s evs =
     (Inr v, stateAfter fn s (Suc k), evs @ eventsFrom base factor cap attempt (Suc k))"
proof (induction k arbitrary: s attempt lastError evs)
  case 0
  then show ?case
    by (subst retryLoop.simps) (auto split: prod.splits sum.splits)
next
  case (Suc k)
  from Suc.prems(1) have "isl (fst (fn s))"
    by (metis stateAfter.simps(1) zero_less_Suc)
  then obtain err where err: "fst (fn s) = Inl err"
    by (cases "fst (fn s)") auto
  have later: "\<forall>j<k. isl (fst (fn (stateAfter fn (snd (fn s)) j)))"
    using Suc.prems(1) by (metis Suc_less_eq stateAfter.simps(2))
  have "retryLoop fn maxA base cap factor attempt lastError s evs =
          retryLoop fn maxA base cap factor (attempt + 1) (Some err) (snd (fn s))
            (evs @ [Invoked, Slept (retryDelay base factor cap attempt)])"
    using err Suc.prems(3) by (subst retryLoop.simps) (auto split: prod.splits sum.splits)
  also have "\<dots> = (Inr v, stateAfter fn (snd (fn s)) (Suc k),
                   (evs @ [Invoked, Slept (retryDelay base factor cap attempt)]) @
                   eventsFrom base factor cap (attempt + 1) (Suc k))"
    using Suc.prems by (intro Suc.IH later) auto
  finally show ?case by simp
qed

lemma retryLoop_exhausts:
  "(\<forall>j\<le>k. isl (fst (fn (stateAfter fn s j)))) \<Longrightarrow> attempt + int k = maxA \<Longrightarrow>
   retryLoop fn maxA base cap factor attempt lastError s evs =
     (Inl (Some (projl (fst (fn (stateAfter fn s k))))), stateAfter fn s (Suc k),
      evs @ eventsFrom base factor cap attempt (Suc k))"
proof (induction k arbitrary: s attempt lastError evs)
  case 0
  then obtain err where "fst (fn s) = Inl err"
    by (cases "fst (fn s)") auto
  with 0 show ?case
    by (subst retryLoop.simps) (auto split: prod.splits sum.splits)
next
  case (Suc k)
  from Suc.prems(1) have "isl (fst (fn s))"
    by (metis stateAfter.simps(1) le0)
  then obtain err where err: "fst (fn s) = Inl err"
    by (cases "fst (fn s)") auto
  have later: "\<forall>j\<le>k. isl (fst (fn (stateAfter fn (snd (fn s)) j)))"
    using Suc.prems(1) by (metis Suc_le_mono stateAfter.simps(2))
  have "retryLoop fn maxA base cap factor attempt lastError s evs =
          retryLoop fn maxA base cap factor (attempt + 1) (Some err) (snd (fn s))
            (evs @ [Invoked, Slept (retryDelay base factor cap attempt)])"
    using err Suc.prems(2) by (subst retryLoop.simps) (auto split: prod.splits sum.splits)
  also have "\<dots> = (Inl (Some (projl (fst (fn (stateAfter fn (snd (fn s)) k))))),
                   stateAfter fn (snd (fn s)) (Suc k),
                   (evs @ [Invoked, Slept (retryDelay base factor cap attempt)]) @
                   eventsFrom base factor cap (attempt + 1) (Suc k))"
    using Suc.prems by (intro Suc.IH later) auto
  finally show ?case by simp
qed

lemma invocations_append: "invocations (xs @ ys) = invocations xs + invocations ys"
  by (simp add: invocations_def)

lemma retryLoop_invocations_bound:
  "invocations (snd (snd (retryLoop fn maxA base cap factor attempt lastError s evs)))
     \<le> invocations evs + nat (maxA + 1 - attempt)"
proof (induction fn maxA base cap factor attempt lastError s evs rule: retryLoop.induct)
  case (1 fn maxA base cap factor attempt lastError s evs)
  show ?case
  proof (cases "attempt \<le> maxA")
    case False
    then show ?thesis by (subst retryLoop.simps) simp
  next
    case True
    obtain r s' where fn: "fn s = (r, s')" by (cases "fn s")
    show ?thesis
    proof (cases r)
      case (Inr v)
      with True fn show ?thesis
        by (subst retryLoop.simps) (simp add: invocations_append invocations_def)
    next
      case (Inl err)
      show ?thesis
      proof (cases "attempt = maxA")
        case True
        with fn Inl show ?thesis
          by (subst retryLoop.simps) (simp add: invocations_append invocations_def)
      next
        case False
        have "invocations (snd (snd (retryLoop fn maxA base cap factor (attempt + 1) (Some err) s'
                 (evs @ [Invoked, Slept (retryDelay base factor cap attempt)]))))
              \<le> invocations (evs @ [Invoked, Slept (retryDelay base factor cap attempt)])
                  + nat (maxA + 1 - (attempt + 1))"
          using True fn [symmetric] Inl False by (intro "1.IH") auto
        with True False fn Inl show ?thesis
          by (subst retryLoop.simps) (simp add: invocations_append invocations_def)
      qed
    qed
  qed
qed

lemma invocations_eventsFrom: "invocations (eventsFrom base factor cap attempt n) = n"
  by (induction base factor cap attempt n rule: eventsFrom.induct) (simp_all add: invocations_def)

lemma eventsFrom_closed:
  "eventsFrom base factor cap (int a) (Suc k) =
     concat (map (\<lambda>i. [Invoked, Slept (retryDelay base factor cap (int i))]) [a..<a + k])
       @ [Invoked]"
proof (induction k arbitrary: a)
  case 0
  then show ?case by simp
next
  case (Suc k)
  have "eventsFrom base factor cap (int a) (Suc (Suc k)) =
          Invoked # Slept (retryDelay base factor cap (int a))
            # eventsFrom base factor cap (int (Suc a)) (Suc k)"
    by (simp add: add.commute)
  also have "eventsFrom base factor cap (int (Suc a)) (Suc k) =
      concat (map (\<lambda>i. [Invoked, Slept (retryDelay base factor cap (int i))]) [Suc a..<Suc a + k])
        @ [Invoked]"
    by (rule Suc.IH)
  finally show ?case
    by (simp add: upt_conv_Cons del: upt_Suc)
qed

lemma retryDelay_nat:
  "retryDelay base factor cap (int i) = min (base * factor ^ (i - 1)) cap"
  by (simp add: retryDelay_def nat_diff_distrib')

lemma eventsFrom_first:
  "1 \<le> k \<Longrightarrow>
   eventsFrom base factor cap 1 k =
     concat (map (\<lambda>i. [Invoked, Slept (min (base * factor ^ (i - 1)) cap)]) [1..<k]) @ [Invoked]"
  using eventsFrom_closed [of base factor cap 1 "k - 1"]
  by (simp add: retryDelay_nat)

lemma retry_succeeds:
  assumes "1 \<le> k" "int k \<le> n"
      and "\<forall>j. 1 \<le> j \<and> j < k \<longrightarrow> isl (outcome fn s j)"
      and "outcome fn s k = Inr v"
  shows "retryLoop fn n base cap factor 1 None s [] =
           (Inr v, stateAfter fn s k, eventsFrom base factor cap 1 k)"
proof -
  have "\<forall>j<k - 1. isl (fst (fn (stateAfter fn s j)))"
  proof (intro allI impI)
    fix j assume "j < k - 1"
    with assms(3) have "isl (outcome fn s (Suc j))" by auto
    then show "isl (fst (fn (stateAfter fn s j)))" by (simp add: outcome_def)
  qed
  moreover have "fst (fn (stateAfter fn s (k - 1))) = Inr v"
    using assms(4) by (simp add: outcome_def)
  moreover have "1 + int (k - 1) \<le> n"
    using assms(1,2) by simp
  ultimately show ?thesis
    using retryLoop_succeeds [of "k - 1" fn s v 1 n base cap factor None "[]"] assms(1)
    by simp
qed

lemma retry_exhausts:
  assumes "1 \<le> n"
      and "\<forall>j. 1 \<le> j \<and> int j \<le> n \<longrightarrow> isl (outcome fn s j)"
  shows "retryLoop fn n base cap factor 1 None s [] =
           (Inl (Some (projl (outcome fn s (nat n)))), stateAfter fn s (nat n),
            eventsFrom base factor cap 1 (nat n))"
proof -
  have "\<forall>j\<le>nat n - 1. isl (fst (fn (stateAfter fn s j)))"
  proof (intro allI impI)
    fix j assume "j \<le> nat n - 1"
    with assms have "isl (outcome fn s (Suc j))" by auto
    then show "isl (fst (fn (stateAfter fn s j)))" by (simp add: outcome_def)
  qed
  moreover have "1 + int (nat n - 1) = n"
    using assms(1) by simp
  ultimately show ?thesis
    using retryLoop_exhausts [of "nat n - 1" fn s 1 n base cap factor None "[]"] assms(1)
    by (simp add: outcome_def)
qed

text \<open>
  Claim C8. With \<open>maxAttempts\<close> at least 1 (options left out take their defaults 3, 1000,
  10000 and 2), \<^verbatim>\<open>retry\<close> invokes the operation at most \<open>maxAttempts\<close> times. If attempt
  \<open>k\<close>, not beyond \<open>maxAttempts\<close>, is the first to succeed, \<^verbatim>\<open>retry\<close> returns that
  attempt's value after exactly \<open>k\<close> invocations, having slept
  \<open>min (baseDelay * backoffFactor ^ (i - 1)) maxDelay\<close> after each failed attempt \<open>i\<close>. If
  every attempt up to \<open>maxAttempts\<close> fails, \<^verbatim>\<open>retry\<close> throws the error of the last of
  them, after exactly \<open>maxAttempts\<close> invocations and the same sleeps between them.
\<close>

theorem retry_behaviour:
  "(case maxAttempts options of None \<Rightarrow> 3 | Some m \<Rightarrow> m) = n \<and>
   (case baseDelay options of None \<Rightarrow> 1000 | Some d \<Rightarrow> d) = base \<and>
   (case maxDelay options of None \<Rightarrow> 10000 | Some d \<Rightarrow> d) = cap \<and>
   (case backoffFactor options of None \<Rightarrow> 2 | Some d \<Rightarrow> d) = factor \<and> 1 \<le> n \<longrightarrow>
     invocations (snd (snd (retry fn options s))) \<le> nat n \<and>
     (\<forall>k v. 1 \<le> k \<and> int k \<le> n \<and> (\<forall>j. 1 \<le> j \<and> j < k \<longrightarrow> isl (outcome fn s j)) \<and>
            outcome fn s k = Inr v \<longrightarrow>
        retry fn options s =
          (Inr v, stateAfter fn s k,
           concat (map (\<lambda>i. [Invoked, Slept (min (base * factor ^ (i - 1)) cap)]) [1..<k])
             @ [Invoked]) \<and>
        invocations (snd (snd (retry fn options s))) = k) \<and>
     ((\<forall>j. 1 \<le> j \<and> int j \<le> n \<longrightarrow> isl (outcome fn s j)) \<longrightarrow>
        (\<exists>err. outcome fn s (nat n) = Inl err \<and>
               retry fn options s =
                 (Inl (Some err), stateAfter fn s (nat n),
                  concat (map (\<lambda>i. [Invoked, Slept (min (base * factor ^ (i - 1)) cap)])
                            [1..<nat n]) @ [Invoked])) \<and>
        invocations (snd (snd (retry fn options s))) = nat n)"
proof (intro impI, elim conjE)
  assume opts: "(case maxAttempts options of None \<Rightarrow> 3 | Some m \<Rightarrow> m) = n"
    "(case baseDelay options of None \<Rightarrow> 1000 | Some d \<Rightarrow> d) = base"
    "(case maxDelay options of None \<Rightarrow> 10000 | Some d \<Rightarrow> d) = cap"
    "(case backoffFactor options of None \<Rightarrow> 2 | Some d \<Rightarrow> d) = factor"
    and n: "1 \<le> n"
  have unfold: "retry fn options s = retryLoop fn n base cap factor 1 None s []"
    using opts by (simp add: retry_def)
  have bound: "invocations (snd (snd (retry fn options s))) \<le> nat n"
    using retryLoop_invocations_bound [of fn n base cap factor 1 None s "[]"]
    by (simp add: unfold invocations_def)
  have success: "\<forall>k v. 1 \<le> k \<and> int k \<le> n \<and> (\<forall>j. 1 \<le> j \<and> j < k \<longrightarrow> isl (outcome fn s j)) \<and>
            outcome fn s k = Inr v \<longrightarrow>
        retry fn options s =
          (Inr v, stateAfter fn s k,
           concat (map (\<lambda>i. [Invoked, Slept (min (base * factor ^ (i - 1)) cap)]) [1..<k])
             @ [Invoked]) \<and>
        invocations (snd (snd (retry fn options s))) = k"
  proof (intro allI impI, elim conjE)
    fix k v
    assume k: "1 \<le> k" "int k \<le> n" "\<forall>j. 1 \<le> j \<and> j < k \<longrightarrow> isl (outcome fn s j)"
      "outcome fn s k = Inr v"
    have eq: "retry fn options s = (Inr v, stateAfter fn s k, eventsFrom base factor cap 1 k)"
      using retry_succeeds [OF k] by (simp add: unfold)
    have "invocations (snd (snd (retry fn options s))) = k"
      by (simp add: eq invocations_eventsFrom)
    with eq eventsFrom_first [OF k(1), of base factor cap]
    show "retry fn options s =
          (Inr v, stateAfter fn s k,
           concat (map (\<lambda>i. [Invoked, Slept (min (base * factor ^ (i - 1)) cap)]) [1..<k])
             @ [Invoked]) \<and>
        invocations (snd (snd (retry fn options s))) = k"
      by simp
  qed
  have failure: "(\<forall>j. 1 \<le> j \<and> int j \<le> n \<longrightarrow> isl (outcome fn s j)) \<longrightarrow>
        (\<exists>err. outcome fn s (nat n) = Inl err \<and>
               retry fn options s =
                 (Inl (Some err), stateAfter fn s (nat n),
                  concat (map (\<lambda>i. [Invoked, Slept (min (base * factor ^ (i - 1)) cap)])
                            [1..<nat n]) @ [Invoked])) \<and>
        invocations (snd (snd (retry fn options s))) = nat n"
  proof (intro impI)
    assume all: "\<forall>j. 1 \<le> j \<and> int j \<le> n \<longrightarrow> isl (outcome fn s j)"
    have eq: "retry fn options s =
                (Inl (Some (projl (outcome fn s (nat n)))), stateAfter fn s (nat n),
                 eventsFrom base factor cap 1 (nat n))"
      using retry_exhausts [OF n all] by (simp add: unfold)
    have "isl (outcome fn s (nat n))"
      using all n by simp
    then have last: "outcome fn s (nat n) = Inl (projl (outcome fn s (nat n)))"
      by simp
    have count: "invocations (snd (snd (retry fn options s))) = nat n"
      by (simp add: eq invocations_eventsFrom)
    have "1 \<le> nat n" using n by simp
    from eq last count eventsFrom_first [OF this, of base factor cap]
    show "(\<exists>err. outcome fn s (nat n) = Inl err \<and>
               retry fn options s =
                 (Inl (Some err), stateAfter fn s (nat n),
                  concat (map (\<lambda>i. [Invoked, Slept (min (base * factor ^ (i - 1)) cap)])
                            [1..<nat n]) @ [Invoked])) \<and>
        invocations (snd (snd (retry fn options s))) = nat n"
      by auto
  qed
  from bound success failure
  show "invocations (snd (snd (retry fn options s))) \<le> nat n \<and>
     (\<forall>k v. 1 \<le> k \<and> int k \<le> n \<and> (\<forall>j. 1 \<le> j \<and> j < k \<longrightarrow> isl (outcome fn s j)) \<and>
            outcome fn s k = Inr v \<longrightarrow>
        retry fn options s =
          (Inr v, stateAfter fn s k,
           concat (map (\<lambda>i. [Invoked, Slept (min (base * factor ^ (i - 1)) cap)]) [1..<k])
             @ [Invoked]) \<and>
        invocations (snd (snd (retry fn options s))) = k) \<and>
     ((\<forall>j. 1 \<le> j \<and> int j \<le> n \<longrightarrow> isl (outcome fn s j)) \<longrightarrow>
        (\<exists>err. outcome fn s (nat n) = Inl err \<and>
               retry fn options s =
                 (Inl (Some err), stateAfter fn s (nat n),
                  concat (map (\<lambda>i. [Invoked, Slept (min (base * factor ^ (i - 1)) cap)])
                            [1..<nat n]) @ [Invoked])) \<and>
        invocations (snd (snd (retry fn options s))) = nat n)"
    by blast
qed

lemma sample_events:
  "concat (map (\<lambda>i. [Invoked, Slept (min (1000 * 2 ^ (i - 1)) 10000)]) [1..<3]) @ [Invoked] =
     [Invoked, Slept 1000, Invoked, Slept 2000, Invoked]"
  by (simp add: upt_conv_Cons)

text \<open>
  With \<open>maxAttempts = 3\<close>, \<open>baseDelay = 1000\<close>, \<open>maxDelay = 10000\<close> and
  \<open>backoffFactor = 2\<close>: an operation that fails twice and then succeeds gives its value
  after 3 invocations, and one that always fails gives the error of its third invocation.
\<close>

theorem retry_behaviour_witness:
  "retry failsTwice sampleOptions 0 =
     (Inr ''done'', 3, [Invoked, Slept 1000, Invoked, Slept 2000, Invoked]) \<and>
   invocations (snd (snd (retry failsTwice sampleOptions 0))) = 3 \<and>
   retry alwaysFails sampleOptions 0 =
     (Inl (Some 3), 3, [Invoked, Slept 1000, Invoked, Slept 2000, Invoked]) \<and>
   invocations (snd (snd (retry alwaysFails sampleOptions 0))) = 3"
proof -
  have opts:
    "(case maxAttempts sampleOptions of None \<Rightarrow> 3 | Some m \<Rightarrow> m) = 3 \<and>
     (case baseDelay sampleOptions of None \<Rightarrow> 1000 | Some d \<Rightarrow> d) = 1000 \<and>
     (case maxDelay sampleOptions of None \<Rightarrow> 10000 | Some d \<Rightarrow> d) = 10000 \<and>
     (case backoffFactor sampleOptions of None \<Rightarrow> 2 | Some d \<Rightarrow> d) = 2 \<and> (1::int) \<le> 3"
    by (simp add: sampleOptions_def)
  have small: "j = 1 \<or> j = 2 \<or> j = 3" if "1 \<le> j" "j \<le> 3" for j :: nat
    using that by arith
  have twice: "outcome failsTwice 0 1 = Inl 1" "outcome failsTwice 0 2 = Inl 2"
    "outcome failsTwice 0 3 = Inr ''done''"
    by (simp_all add: outcome_def failsTwice_def eval_nat_numeral)
  have always: "outcome alwaysFails 0 1 = Inl 1" "outcome alwaysFails 0 2 = Inl 2"
    "outcome alwaysFails 0 3 = Inl 3"
    by (simp_all add: outcome_def alwaysFails_def eval_nat_numeral)
  have states: "stateAfter failsTwice 0 3 = 3" "stateAfter alwaysFails 0 3 = 3"
    by (simp_all add: failsTwice_def alwaysFails_def eval_nat_numeral)
  have before: "\<forall>j. 1 \<le> j \<and> j < 3 \<longrightarrow> isl (outcome failsTwice 0 j)"
    using small twice by (metis isl_def less_or_eq_imp_le nat_neq_iff)
  have every: "\<forall>j. 1 \<le> j \<and> int j \<le> 3 \<longrightarrow> isl (outcome alwaysFails 0 j)"
    using small always by (metis isl_def of_nat_le_iff of_nat_numeral)
  have first:
    "retry failsTwice sampleOptions 0 =
       (Inr ''done'', stateAfter failsTwice 0 3,
        concat (map (\<lambda>i. [Invoked, Slept (min (1000 * 2 ^ (i - 1)) 10000)]) [1..<3])
          @ [Invoked]) \<and>
     invocations (snd (snd (retry failsTwice sampleOptions 0))) = 3"
    using retry_behaviour [of sampleOptions 3 1000 10000 2 failsTwice 0] opts before twice(3)
    by simp
  have second:
    "(\<exists>err. outcome alwaysFails 0 (nat 3) = Inl err \<and>
            retry alwaysFails sampleOptions 0 =
              (Inl (Some err), stateAfter alwaysFails 0 (nat 3),
               concat (map (\<lambda>i. [Invoked, Slept (min (1000 * 2 ^ (i - 1)) 10000)]) [1..<nat 3])
                 @ [Invoked])) \<and>
     invocations (snd (snd (retry alwaysFails sampleOptions 0))) = nat 3"
    using retry_behaviour [of sampleOptions 3 1000 10000 2 alwaysFails 0] opts every
    by blast
  from first second show ?thesis
    using states always(3) sample_events by auto
qed


end
